theory Spec2Isabelle
  imports Complex_Main "HOL-Library.Sublist"
begin

section \<open>Strings and arrays as JavaScript has them\<close>

text \<open>
  A JavaScript string is modelled as a \<^typ>\<open>string\<close>; one \<^typ>\<open>char\<close> stands for one
  code unit, and the inputs considered are ASCII (the two emoji of the source are spelled
  as their UTF-8 bytes). \<open>String.prototype.trim\<close> removes the white space of ASCII: tab,
  line feed, vertical tab, form feed, carriage return and space.
\<close>

definition is_ws :: "char \<Rightarrow> bool" where
  "is_ws c = (c \<in> set [CHR 0x09, CHR 0x0A, CHR 0x0B, CHR 0x0C, CHR 0x0D, CHR '' ''])"

definition trim :: "string \<Rightarrow> string" where
  "trim s = rev (dropWhile is_ws (rev (dropWhile is_ws s)))"

definition startsWith :: "string \<Rightarrow> string \<Rightarrow> bool" where
  "startsWith s p = prefix p s"

definition includes_str :: "string \<Rightarrow> string \<Rightarrow> bool" where
  "includes_str s p = sublist p s"

definition to_lower_char :: "char \<Rightarrow> char" where
  "to_lower_char c =
     (case map_of (zip ''ABCDEFGHIJKLMNOPQRSTUVWXYZ'' ''abcdefghijklmnopqrstuvwxyz'') c of
        Some d \<Rightarrow> d
      | None \<Rightarrow> c)"

definition toLowerCase :: "string \<Rightarrow> string" where
  "toLowerCase s = map to_lower_char s"

text \<open>\<open>Array.prototype.join\<close>.\<close>

fun join :: "string \<Rightarrow> string list \<Rightarrow> string" where
  "join sep [] = []"
| "join sep [x] = x"
| "join sep (x # y # ys) = x @ sep @ join sep (y # ys)"

text \<open>
  \<open>raw.split(/\n+/)\<close>: the pieces between maximal runs of line feeds. A run at the start
  or at the end of the input leaves one empty piece there, as in JavaScript.
\<close>

fun split_nl_from :: "string \<Rightarrow> string \<Rightarrow> string list" where
  "split_nl_from cur [] = [rev cur]"
| "split_nl_from cur (c # cs) =
     (if c = CHR 0x0A then
        (case cs of
           [] \<Rightarrow> rev cur # split_nl_from [] cs
         | d # _ \<Rightarrow> if d = CHR 0x0A then split_nl_from cur cs else rev cur # split_nl_from [] cs)
      else split_nl_from (c # cur) cs)"

definition split_newlines :: "string \<Rightarrow> string list" where
  "split_newlines raw = split_nl_from [] raw"

text \<open>\<open>arr.splice(i, 0, ...items)\<close> for an index \<open>i\<close> within the array.\<close>

definition splice_in :: "nat \<Rightarrow> 'a list \<Rightarrow> 'a list \<Rightarrow> 'a list" where
  "splice_in i items xs = take i xs @ items @ drop i xs"

section \<open>JSON values\<close>

text \<open>
  The values \<open>JSON.parse\<close> returns. An object is the list of its own properties, each key
  once. \<open>JSON.parse\<close> itself belongs to the platform: the parser below takes it as the
  parameter \<open>P\<close>, where \<open>P line = None\<close> stands for the \<open>SyntaxError\<close> it throws.
\<close>

datatype json =
    JNull
  | JBool bool
  | JNum int
  | JStr string
  | JArr "json list"
  | JObj "(string \<times> json) list"

text \<open>Reading a property of a value that is neither \<open>null\<close> nor \<open>undefined\<close>;
  \<open>None\<close> is \<open>undefined\<close>.\<close>

fun get_prop :: "json \<Rightarrow> string \<Rightarrow> json option" where
  "get_prop (JObj kvs) k = map_of kvs k"
| "get_prop _ k = None"

text \<open>Optional chaining \<open>v?.k\<close> on a value that may be \<open>undefined\<close> or \<open>null\<close>.\<close>

fun opt_prop :: "json option \<Rightarrow> string \<Rightarrow> json option" where
  "opt_prop None k = None"
| "opt_prop (Some JNull) k = None"
| "opt_prop (Some v) k = get_prop v k"

fun truthy :: "json option \<Rightarrow> bool" where
  "truthy None = False"
| "truthy (Some JNull) = False"
| "truthy (Some (JBool b)) = b"
| "truthy (Some (JNum n)) = (n \<noteq> 0)"
| "truthy (Some (JStr s)) = (s \<noteq> [])"
| "truthy (Some (JArr xs)) = True"
| "truthy (Some (JObj kvs)) = True"

section \<open>The pi agent (src/src/agents/pi.ts)\<close>

record AgentMeta =
  model :: "json option"
  provider :: "json option"
  stopReason :: "json option"
  usage :: "json option"
  extra_summary :: "string option"

record AgentParseResult =
  texts :: "string list"
  toolResults :: "string list option"
  meta :: "AgentMeta option"

text \<open>The loop variables of \<open>parsePiJson\<close>.\<close>

record PiState =
  st_texts :: "string list"
  st_toolResults :: "string list"
  st_lastAssistant :: "json option"
  st_lastPushed :: "string option"

definition pi_init :: PiState where
  "pi_init = \<lparr>st_texts = [], st_toolResults = [], st_lastAssistant = None, st_lastPushed = None\<rparr>"

text \<open>\<open>ev.type === "message" || ev.type === "message_end"\<close>\<close>

definition typeOk :: "json \<Rightarrow> bool" where
  "typeOk ev = (get_prop ev ''type'' = Some (JStr ''message'') \<or> get_prop ev ''type'' = Some (JStr ''message_end''))"

definition isToolResult :: "json \<Rightarrow> bool" where
  "isToolResult ev =
     (typeOk ev \<and> truthy (opt_prop (get_prop ev ''message'') ''role'') \<and>
      (case opt_prop (get_prop ev ''message'') ''role'' of
         Some (JStr r) \<Rightarrow> includes_str (toLowerCase r) ''tool''
       | _ \<Rightarrow> False))"

definition isAssistantMessage :: "json \<Rightarrow> bool" where
  "isAssistantMessage ev =
     (typeOk ev \<and> opt_prop (get_prop ev ''message'') ''role'' = Some (JStr ''assistant'') \<and>
      (case opt_prop (get_prop ev ''message'') ''content'' of Some (JArr cs) \<Rightarrow> True | _ \<Rightarrow> False))"

text \<open>\<open>c?.type === "text" && typeof c.text === "string"\<close>, and the text it maps to.\<close>

fun text_part :: "json \<Rightarrow> string option" where
  "text_part (JObj kvs) =
     (if map_of kvs ''type'' = Some (JStr ''text'') then
        (case map_of kvs ''text'' of Some (JStr t) \<Rightarrow> Some t | _ \<Rightarrow> None)
      else None)"
| "text_part _ = None"

text \<open>
  \<open>msg.content?.filter(...).map(...).join("\n").trim()\<close>: \<open>undefined\<close> when the content is
  \<open>undefined\<close> or \<open>null\<close>, a \<open>TypeError\<close> when it is any other value that is not an array
  (it has no \<open>filter\<close> method).
\<close>

datatype content_text = Thrown | NoContent | Text string

fun msgText :: "json option \<Rightarrow> content_text" where
  "msgText None = NoContent"
| "msgText (Some JNull) = NoContent"
| "msgText (Some (JArr cs)) = Text (trim (join [CHR 0x0A] (List.map_filter text_part cs)))"
| "msgText (Some _) = Thrown"

text \<open>
  One iteration of the loop over the lines: the body of the \<open>try\<close>, with every exception
  caught and the line skipped. \<open>ev.type\<close> on \<open>null\<close> throws; the content is read before
  any variable is written, so a line that throws leaves the state as it was.
\<close>

definition pi_line :: "(string \<Rightarrow> json option) \<Rightarrow> PiState \<Rightarrow> string \<Rightarrow> PiState" where
  "pi_line P st line =
     (case P line of
        None \<Rightarrow> st
      | Some JNull \<Rightarrow> st
      | Some ev \<Rightarrow>
          if \<not> isAssistantMessage ev \<and> \<not> isToolResult ev then st
          else
            (case msgText (opt_prop (get_prop ev ''message'') ''content'') of
               Thrown \<Rightarrow> st
             | NoContent \<Rightarrow> st
             | Text t \<Rightarrow>
                 if isAssistantMessage ev then
                   (if t \<noteq> [] \<and> Some t \<noteq> st_lastPushed st then
                      st\<lparr>st_texts := st_texts st @ [t],
                         st_lastPushed := Some t,
                         st_lastAssistant := get_prop ev ''message''\<rparr>
                    else st)
                 else
                   (if t \<noteq> [] then st\<lparr>st_toolResults := st_toolResults st @ [t]\<rparr> else st)))"

text \<open>\<open>raw.split(/\n+/).filter((l) => l.trim().startsWith("{"))\<close>\<close>

definition pi_lines :: "string \<Rightarrow> string list" where
  "pi_lines raw = filter (\<lambda>l. startsWith (trim l) ''{'') (split_newlines raw)"

definition pi_meta :: "json \<Rightarrow> AgentMeta" where
  "pi_meta la =
     \<lparr>model = get_prop la ''model'', provider = get_prop la ''provider'',
      stopReason = get_prop la ''stopReason'', usage = get_prop la ''usage'', extra_summary = None\<rparr>"

definition pi_finish :: "PiState \<Rightarrow> AgentParseResult" where
  "pi_finish st =
     \<lparr>texts = st_texts st,
      toolResults = (if st_toolResults st = [] then None else Some (st_toolResults st)),
      meta = (case st_lastAssistant st of
                Some la \<Rightarrow> if st_texts st \<noteq> [] then Some (pi_meta la) else None
              | None \<Rightarrow> None)\<rparr>"

definition pi_run :: "(string \<Rightarrow> json option) \<Rightarrow> string list \<Rightarrow> AgentParseResult" where
  "pi_run P ls = pi_finish (foldl (pi_line P) pi_init ls)"

definition parsePiJson :: "(string \<Rightarrow> json option) \<Rightarrow> string \<Rightarrow> AgentParseResult" where
  "parsePiJson P raw = pi_run P (pi_lines raw)"

text \<open>
  \<open>path.basename\<close> of node:path on POSIX: trailing slashes are dropped, then the part
  after the last slash is taken.
\<close>

definition basename :: "string \<Rightarrow> string" where
  "basename p =
     rev (takeWhile (\<lambda>c. c \<noteq> CHR ''/'') (dropWhile (\<lambda>c. c = CHR ''/'') (rev p)))"

text \<open>\<open>base.replace(/\.(m?js)$/i, "")\<close>: a final \<open>.js\<close> or \<open>.mjs\<close>, in any case, is removed.\<close>

definition strip_js_ext :: "string \<Rightarrow> string" where
  "strip_js_ext b =
     (if suffix ''.mjs'' (toLowerCase b) then take (length b - 4) b
      else if suffix ''.js'' (toLowerCase b) then take (length b - 3) b
      else b)"

definition pi_isInvocation :: "string list \<Rightarrow> bool" where
  "pi_isInvocation argv =
     (case argv of
        [] \<Rightarrow> False
      | a # _ \<Rightarrow> strip_js_ext (basename a) = ''pi'' \<or> strip_js_ext (basename a) = ''tau'')"

datatype AgentKind = Claude | Opencode | Pi | Codex | Gemini

datatype AgentFormat = FormatText | FormatJson

record BuildCtx =
  ctx_argv :: "string list"
  ctx_bodyIndex :: nat
  ctx_isNewSession :: bool
  ctx_sessionId :: "string option"
  ctx_sendSystemOnce :: bool
  ctx_systemSent :: bool
  ctx_identityPrefix :: "string option"
  ctx_format :: "AgentFormat option"

text \<open>
  \<open>piSpec.buildArgs\<close>. \<open>argv.splice(argv.length - 1, 0, ...)\<close> inserts before the last
  element; on an empty array the start \<open>-1\<close> is clamped to \<open>0\<close>, which is what the
  truncating subtraction of \<^typ>\<open>nat\<close> gives. \<open>argv[ctx.bodyIndex]\<close> out of range is
  \<open>undefined\<close>, hence falsy.
\<close>

definition pi_buildArgs :: "BuildCtx \<Rightarrow> string list" where
  "pi_buildArgs ctx =
     (let argv0 = ctx_argv ctx;
          argv1 = (if ''-p'' \<notin> set argv0 \<and> ''--print'' \<notin> set argv0
                   then splice_in (length argv0 - 1) [''-p''] argv0 else argv0);
          argv2 = (if ctx_format ctx = Some FormatJson \<and> ''--mode'' \<notin> set argv1
                   then splice_in (length argv1 - 1) [''--mode'', ''json''] argv1 else argv1);
          i = ctx_bodyIndex ctx
      in if \<not> (ctx_sendSystemOnce ctx \<and> ctx_systemSent ctx) \<and> i < length argv2 \<and> argv2 ! i \<noteq> []
         then argv2[i := join [CHR 0x0A, CHR 0x0A]
                (filter (\<lambda>s. s \<noteq> [])
                   ((case ctx_identityPrefix ctx of None \<Rightarrow> [] | Some ip \<Rightarrow> [ip]) @ [argv2 ! i]))]
         else argv2)"

section \<open>The reply engine in command mode (runCommandReply, src/unnamed/part_001)\<close>

text \<open>Decimal rendering of a number in a template literal, for integers.\<close>

fun show_nat :: "nat \<Rightarrow> string" where
  "show_nat n = (if n < 10 then [''0123456789'' ! n] else show_nat (n div 10) @ [''0123456789'' ! (n mod 10)])"

declare show_nat.simps [simp del]

definition show_int :: "int \<Rightarrow> string" where
  "show_int i = (if i < 0 then ''-'' @ show_nat (nat (- i)) else show_nat (nat i))"

text \<open>The warning sign and the tools emoji of the source, each followed by the variation
  selector, as UTF-8 bytes.\<close>

definition warning_sign :: string where
  "warning_sign = [CHR 0xE2, CHR 0x9A, CHR 0xA0, CHR 0xEF, CHR 0xB8, CHR 0x8F]"

definition tools_sign :: string where
  "tools_sign = [CHR 0xF0, CHR 0x9F, CHR 0x9B, CHR 0xA0, CHR 0xEF, CHR 0xB8, CHR 0x8F]"

datatype ThinkLevel = Off | Minimal | Low | Medium | High

datatype VerboseLevel = VerboseOff | VerboseOn

fun think_word :: "ThinkLevel \<Rightarrow> string" where
  "think_word Off = ''off''"
| "think_word Minimal = ''minimal''"
| "think_word Low = ''low''"
| "think_word Medium = ''medium''"
| "think_word High = ''high''"

record SessionConfig =
  sessionArgNew :: "string list option"
  sessionArgResume :: "string list option"
  sessionArgBeforeBody :: "bool option"

record AgentConfig =
  agent_kind :: AgentKind
  agent_format :: "AgentFormat option"
  agent_identityPrefix :: "string option"

record CommandReplyConfig =
  command :: "string list option"
  template :: "string option"
  cwd :: "string option"
  mediaUrl :: "string option"
  mediaMaxMb :: "rat option"
  session :: "SessionConfig option"
  agent :: "AgentConfig option"

text \<open>Modelled from the spec: the type \<open>TemplateContext\<close> of templating.ts, which is not
  among the sources; its fields are the tokens the template engine substitutes.\<close>

record TemplateContext =
  Body :: "string option"
  BodyStripped :: "string option"
  From :: "string option"
  To :: "string option"
  MessageSid :: "string option"
  SessionId :: "string option"
  IsNewSession :: "string option"
  MediaPath :: "string option"

record CommandReplyParams =
  reply :: CommandReplyConfig
  templatingCtx :: TemplateContext
  sendSystemOnce :: bool
  isNewSession :: bool
  isFirstTurnInSession :: bool
  systemSent :: bool
  timeoutMs :: nat
  timeoutSeconds :: nat
  thinkLevel :: "ThinkLevel option"
  verboseLevel :: "VerboseLevel option"

record AgentSpec =
  isInvocation :: "string list \<Rightarrow> bool"
  buildArgs :: "BuildCtx \<Rightarrow> string list"
  parseOutput :: "string \<Rightarrow> AgentParseResult option"

definition piSpec :: "(string \<Rightarrow> json option) \<Rightarrow> AgentSpec" where
  "piSpec P =
     \<lparr>isInvocation = pi_isInvocation, buildArgs = pi_buildArgs,
      parseOutput = (\<lambda>raw. Some (parsePiJson P raw))\<rparr>"

text \<open>What the run handed to the queue is: the long-lived RPC of the pi agent, or the
  command runner.\<close>

datatype RunRequest =
    PiRpc "string list" "string option" string nat
  | RunCommand "string list" nat "string option"

record ProcResult =
  stdout :: string
  stderr :: "string option"
  code :: "int option"
  signal :: "string option"
  killed :: bool

text \<open>The value a rejected run throws, when it is neither \<open>undefined\<close> nor \<open>null\<close>: the
  fields the \<open>catch\<close> block reads, of the types it casts them to, and the text
  \<open>err instanceof Error ? err.message : String(err)\<close>.\<close>

record ErrObj =
  err_killed :: "bool option"
  err_signal :: "string option"
  err_stdout :: "string option"
  err_stderr :: "string option"
  err_message :: string

text \<open>How the run handed to the queue settles: it resolves, it rejects with such a value
  (also when something inside the \<open>try\<close> throws one), or it rejects with \<open>undefined\<close> or
  \<open>null\<close>.\<close>

datatype RunOutcome = Resolved ProcResult | Rejected ErrObj | RejectedNullish

text \<open>
  The collaborators of \<open>runCommandReply\<close> whose code is not among the sources, taken as
  parameters: the template engine, the agent registry, the media splitter, the queue with
  the runner behind it (the arguments of its one \<open>onWait\<close> call, if any, and how the run
  settles), the file system (\<open>fs.stat\<close> gives the size or fails), \<open>path.resolve\<close> and the
  clock. Logging is not modelled.
\<close>

record Env =
  applyTemplate :: "string \<Rightarrow> TemplateContext \<Rightarrow> string"
  getAgentSpec :: "AgentKind \<Rightarrow> AgentSpec"
  splitMediaFromOutput :: "string \<Rightarrow> string \<times> string list option"
  enqueue :: "RunRequest \<Rightarrow> (nat \<times> nat) option \<times> RunOutcome"
  stat_size :: "string \<Rightarrow> nat option"
  path_resolve :: "string \<Rightarrow> string"
  elapsedMs :: nat

record ReplyPayload =
  p_text :: "string option"
  p_mediaUrl :: "string option"
  p_mediaUrls :: "string list option"

record CommandReplyMeta =
  durationMs :: nat
  queuedMs :: "nat option"
  queuedAhead :: "nat option"
  exitCode :: "int option"
  meta_signal :: "string option"
  meta_killed :: "bool option"
  agentMeta :: "AgentMeta option"

record CommandReplyResult =
  payloads :: "ReplyPayload list"
  reply_meta :: CommandReplyMeta

text \<open>What \<open>runCommandReply\<close> throws to its caller: the \<open>Error\<close> of line 369, or the
  \<open>TypeError\<close> of reading a property of \<open>undefined\<close> or \<open>null\<close>.\<close>

datatype error = Error string | TypeError

fun cue_word :: "ThinkLevel \<Rightarrow> string" where
  "cue_word High = ''ultrathink''"
| "cue_word Medium = ''think harder''"
| "cue_word Low = ''think hard''"
| "cue_word Minimal = ''think''"
| "cue_word Off = []"

definition appendThinkingCue :: "string \<Rightarrow> ThinkLevel option \<Rightarrow> string" where
  "appendThinkingCue body level =
     (case level of
        None \<Rightarrow> body
      | Some Off \<Rightarrow> body
      | Some l \<Rightarrow> join '' '' (filter (\<lambda>s. s \<noteq> []) [trim body, cue_word l]))"

text \<open>Lines 375 to 382: the templated command, with the template prefix after \<open>argv[0]\<close>.\<close>

definition templatedArgv :: "Env \<Rightarrow> CommandReplyParams \<Rightarrow> string list \<Rightarrow> string list" where
  "templatedArgv env ps cmd =
     (let argv = map (\<lambda>part. applyTemplate env part (templatingCtx ps)) cmd;
          templatePrefix =
            (case template (reply ps) of
               Some t \<Rightarrow>
                 if t \<noteq> [] \<and> (\<not> sendSystemOnce ps \<or> isFirstTurnInSession ps \<or> \<not> systemSent ps)
                 then applyTemplate env t (templatingCtx ps) else []
             | None \<Rightarrow> [])
      in if templatePrefix \<noteq> [] then
           (case argv of [] \<Rightarrow> argv | a # rest \<Rightarrow> a # templatePrefix # rest)
         else argv)"

text \<open>\<open>reply.agent ?? { kind: "claude" }\<close>\<close>

definition agentCfg :: "CommandReplyConfig \<Rightarrow> AgentConfig" where
  "agentCfg r =
     (case agent r of
        Some a \<Rightarrow> a
      | None \<Rightarrow> \<lparr>agent_kind = Claude, agent_format = None, agent_identityPrefix = None\<rparr>)"

text \<open>Lines 388 to 424: the session arguments, as (newArgs, resumeArgs).\<close>

fun defaultSessionArgs :: "AgentKind \<Rightarrow> string list \<times> string list" where
  "defaultSessionArgs Claude = ([''--session-id'', ''{{SessionId}}''], [''--resume'', ''{{SessionId}}''])"
| "defaultSessionArgs Gemini = ([], [''--resume'', ''{{SessionId}}''])"
| "defaultSessionArgs _ = ([''--session'', ''{{SessionId}}''], [''--session'', ''{{SessionId}}''])"

definition sessionArgList :: "Env \<Rightarrow> CommandReplyParams \<Rightarrow> SessionConfig \<Rightarrow> string list" where
  "sessionArgList env ps s =
     map (\<lambda>p. applyTemplate env p (templatingCtx ps))
       (if isNewSession ps
        then (case sessionArgNew s of
                Some a \<Rightarrow> a
              | None \<Rightarrow> fst (defaultSessionArgs (agent_kind (agentCfg (reply ps)))))
        else (case sessionArgResume s of
                Some a \<Rightarrow> a
              | None \<Rightarrow> snd (defaultSessionArgs (agent_kind (agentCfg (reply ps))))))"

definition injectSessionArgs :: "Env \<Rightarrow> CommandReplyParams \<Rightarrow> string list \<Rightarrow> string list" where
  "injectSessionArgs env ps argv =
     (case session (reply ps) of
        None \<Rightarrow> argv
      | Some s \<Rightarrow>
          if sessionArgList env ps s \<noteq> [] then
            (let insertBeforeBody = (case sessionArgBeforeBody s of Some b \<Rightarrow> b | None \<Rightarrow> True);
                 insertAt = (if insertBeforeBody \<and> length argv > 1 then length argv - 1 else length argv)
             in take insertAt argv @ sessionArgList env ps s @ drop insertAt argv)
          else argv)"

text \<open>\<open>Math.max(argv.length - 1, 0)\<close>, computed at line 385 and again at line 422.\<close>

definition bodyIndexOf :: "string list \<Rightarrow> nat" where
  "bodyIndexOf argv = length argv - 1"

text \<open>Lines 426 to 441: the thinking level, as a flag for pi and as a cue word otherwise.\<close>

definition hasThinkingFlag :: "string list \<Rightarrow> bool" where
  "hasThinkingFlag argv =
     list_ex
       (\<lambda>i. argv ! i = ''--thinking'' \<or> (i > 0 \<and> argv ! (i - 1) = ''--thinking'') \<or>
            startsWith (argv ! i) ''--thinking='')
       [0..<length argv]"

definition applyThinking ::
  "AgentKind \<Rightarrow> ThinkLevel option \<Rightarrow> string list \<times> nat \<Rightarrow> string list \<times> nat" where
  "applyThinking k level ab =
     (case ab of (argv, bodyIndex) \<Rightarrow>
        (case level of
           None \<Rightarrow> (argv, bodyIndex)
         | Some Off \<Rightarrow> (argv, bodyIndex)
         | Some l \<Rightarrow>
             if k = Pi then
               (if \<not> hasThinkingFlag argv
                then (splice_in bodyIndex [''--thinking'', think_word l] argv, bodyIndex + 2)
                else (argv, bodyIndex))
             else if bodyIndex < length argv \<and> argv ! bodyIndex \<noteq> []
             then (argv[bodyIndex := appendThinkingCue (argv ! bodyIndex) (Some l)], bodyIndex)
             else (argv, bodyIndex)))"

text \<open>Lines 443 to 455: the agent's own arguments, when the command is an invocation of it.\<close>

definition finalArgvOf :: "Env \<Rightarrow> CommandReplyParams \<Rightarrow> string list \<times> nat \<Rightarrow> string list" where
  "finalArgvOf env ps ab =
     (case ab of (argv, bodyIndex) \<Rightarrow>
        (let cfg = agentCfg (reply ps); spec = getAgentSpec env (agent_kind cfg)
         in if isInvocation spec argv then
              buildArgs spec
                \<lparr>ctx_argv = argv, ctx_bodyIndex = bodyIndex, ctx_isNewSession = isNewSession ps,
                 ctx_sessionId = SessionId (templatingCtx ps),
                 ctx_sendSystemOnce = sendSystemOnce ps, ctx_systemSent = systemSent ps,
                 ctx_identityPrefix = agent_identityPrefix cfg, ctx_format = agent_format cfg\<rparr>
            else argv))"

text \<open>\<open>Array.prototype.indexOf\<close>; \<open>None\<close> is \<open>-1\<close>.\<close>

fun indexOf :: "'a list \<Rightarrow> 'a \<Rightarrow> nat option" where
  "indexOf [] x = None"
| "indexOf (y # ys) x = (if y = x then Some 0 else map_option Suc (indexOf ys x))"

text \<open>Lines 481 to 491: the arguments of the RPC process, without the prompt and with
  \<open>--mode rpc\<close>.\<close>

definition rpcArgv :: "string list \<Rightarrow> string list" where
  "rpcArgv finalArgv =
     (let copy = butlast finalArgv
      in case indexOf copy ''--mode'' of
           Some modeIdx \<Rightarrow>
             if modeIdx + 1 < length copy \<and> copy ! (modeIdx + 1) \<noteq> []
             then take modeIdx copy @ [''--mode'', ''rpc''] @ drop (modeIdx + 2) copy
             else copy
         | None \<Rightarrow> splice_in (length copy - 1) [''--mode'', ''rpc''] copy)"

definition runRequest :: "CommandReplyParams \<Rightarrow> string list \<Rightarrow> RunRequest" where
  "runRequest ps finalArgv =
     (if agent_kind (agentCfg (reply ps)) = Pi
      then PiRpc (rpcArgv finalArgv) (cwd (reply ps))
             (if finalArgv = [] then [] else last finalArgv) (timeoutMs ps)
      else RunCommand finalArgv (timeoutMs ps) (cwd (reply ps)))"

record ReplyItem =
  item_text :: string
  item_media :: "string list option"

text \<open>One reply item from a text: the media splitter's prose, and the media it found,
  \<open>undefined\<close> when it found none.\<close>

definition mkItem :: "Env \<Rightarrow> string \<Rightarrow> ReplyItem" where
  "mkItem env t =
     (case splitMediaFromOutput env t of
        (cleanedText, mediaFound) \<Rightarrow>
          \<lparr>item_text = cleanedText,
           item_media = (case mediaFound of Some (u # us) \<Rightarrow> Some (u # us) | _ \<Rightarrow> None)\<rparr>)"

definition noOutputNotice :: "AgentParseResult option \<Rightarrow> string" where
  "noOutputNotice parsed =
     ''(command produced no output'' @
     (case parsed of
        Some r \<Rightarrow>
          (case meta r of
             Some m \<Rightarrow> (case extra_summary m of Some s \<Rightarrow> if s \<noteq> [] then ''; '' @ s else [] | None \<Rightarrow> [])
           | None \<Rightarrow> [])
      | None \<Rightarrow> []) @ '')''"

text \<open>Lines 520 to 572: the reply items, from the parser's texts, the tool results when
  verbose, the raw output when there was no parser result, and the notice at last.\<close>

definition replyItems ::
  "Env \<Rightarrow> VerboseLevel option \<Rightarrow> string \<Rightarrow> AgentParseResult option \<Rightarrow> ReplyItem list" where
  "replyItems env verbose trimmed parsed =
     (let parserProvided = (parsed \<noteq> None);
          parsedTexts =
            (case parsed of Some r \<Rightarrow> filter (\<lambda>t. t \<noteq> []) (map trim (texts r)) | None \<Rightarrow> []);
          parsedToolResults =
            (case parsed of
               Some r \<Rightarrow>
                 (case toolResults r of
                    Some trs \<Rightarrow> filter (\<lambda>t. t \<noteq> []) (map trim trs)
                  | None \<Rightarrow> [])
             | None \<Rightarrow> []);
          items1 =
            map (mkItem env) parsedTexts @
            (if verbose = Some VerboseOn
             then map (\<lambda>tr. mkItem env (tools_sign @ '' '' @ tr)) parsedToolResults
             else []);
          items2 =
            (if items1 = [] \<and> trimmed \<noteq> [] \<and> \<not> parserProvided then
               (if item_text (mkItem env trimmed) \<noteq> [] \<or> item_media (mkItem env trimmed) \<noteq> None
                then [mkItem env trimmed] else [])
             else items1)
      in if items2 = [] then [\<lparr>item_text = noOutputNotice parsed, item_media = None\<rparr>]
         else items2)"

text \<open>\<open>/^https?:\/\//i.test(url)\<close> and \<open>path.isAbsolute(url)\<close> on POSIX.\<close>

definition is_http_url :: "string \<Rightarrow> bool" where
  "is_http_url u =
     (startsWith (toLowerCase u) ''http://'' \<or> startsWith (toLowerCase u) ''https://'')"

definition isAbsolute :: "string \<Rightarrow> bool" where
  "isAbsolute p = startsWith p ''/''"

text \<open>\<open>path.isAbsolute(url) ? url : path.resolve(url)\<close>\<close>

definition absPath :: "Env \<Rightarrow> string \<Rightarrow> string" where
  "absPath env url = (if isAbsolute url then url else path_resolve env url)"

text \<open>Lines 645 to 665: the loop over the media of one item; \<open>filtered\<close> is the array it
  fills. A failing \<open>fs.stat\<close> is caught and the path is kept.\<close>

fun filterMedia :: "Env \<Rightarrow> rat \<Rightarrow> string list \<Rightarrow> string list \<Rightarrow> string list" where
  "filterMedia env maxBytes filtered [] = filtered"
| "filterMedia env maxBytes filtered (url # urls) =
     (if is_http_url url then filterMedia env maxBytes (filtered @ [url]) urls
      else
        (case stat_size env (absPath env url) of
           Some sz \<Rightarrow>
             if of_nat sz \<le> maxBytes then filterMedia env maxBytes (filtered @ [url]) urls
             else filterMedia env maxBytes filtered urls
         | None \<Rightarrow> filterMedia env maxBytes (filtered @ [url]) urls))"

text \<open>Lines 637 to 640: the media of one item before the cap, those the splitter found or
  else \<open>reply.mediaUrl\<close> (\<open>mediaFromCommand\<close> is never assigned).\<close>

definition candidateMedia :: "CommandReplyConfig \<Rightarrow> ReplyItem \<Rightarrow> string list option" where
  "candidateMedia r item =
     (case item_media item of
        Some m \<Rightarrow> Some m
      | None \<Rightarrow> (case mediaUrl r of Some u \<Rightarrow> if u \<noteq> [] then Some [u] else None | None \<Rightarrow> None))"

text \<open>Lines 643 to 666: they are filtered when \<open>reply.mediaMaxMb\<close> is set (and not zero,
  which is falsy).\<close>

definition itemMediaUrls :: "Env \<Rightarrow> CommandReplyConfig \<Rightarrow> ReplyItem \<Rightarrow> string list option" where
  "itemMediaUrls env r item =
     (case candidateMedia r item of
        Some (u # us) \<Rightarrow>
          (case mediaMaxMb r of
             Some mb \<Rightarrow>
               if mb \<noteq> 0 then Some (filterMedia env (mb * 1024 * 1024) [] (u # us))
               else Some (u # us)
           | None \<Rightarrow> Some (u # us))
      | other \<Rightarrow> other)"

text \<open>Lines 668 to 677: the payload of one item, if it has a text or a medium.\<close>

definition buildPayload :: "Env \<Rightarrow> CommandReplyConfig \<Rightarrow> ReplyItem \<Rightarrow> ReplyPayload option" where
  "buildPayload env r item =
     (let mediaUrls = itemMediaUrls env r item
      in if item_text item \<noteq> [] \<or> (case mediaUrls of Some (u # us) \<Rightarrow> True | _ \<Rightarrow> False) then
           Some \<lparr>p_text = (if item_text item \<noteq> [] then Some (item_text item) else None),
                 p_mediaUrl = (case mediaUrls of Some (u # us) \<Rightarrow> Some u | _ \<Rightarrow> None),
                 p_mediaUrls = mediaUrls\<rparr>
         else None)"

definition textPayload :: "string \<Rightarrow> ReplyPayload" where
  "textPayload t = \<lparr>p_text = Some t, p_mediaUrl = None, p_mediaUrls = None\<rparr>"

text \<open>Lines 583 to 591 and 605 to 609: the texts of the two error payloads of a run that
  resolved.\<close>

definition exitErrorText :: "ProcResult \<Rightarrow> string \<Rightarrow> string" where
  "exitErrorText r trimmed =
     warning_sign @ '' Command exited with code '' @
     (case code r of Some c \<Rightarrow> show_int c | None \<Rightarrow> ''unknown'') @
     (case signal r of Some s \<Rightarrow> if s \<noteq> [] then '' ('' @ s @ '')'' else [] | None \<Rightarrow> []) @
     (if trimmed \<noteq> [] then
        [CHR 0x0A, CHR 0x0A] @ ''Output: '' @ take 500 trimmed @
        (if length trimmed > 500 then ''...'' else [])
      else [])"

definition killedErrorText :: "ProcResult \<Rightarrow> string" where
  "killedErrorText r =
     warning_sign @ '' Command was killed before completion (exit code '' @
     (case code r of Some c \<Rightarrow> show_int c | None \<Rightarrow> ''unknown'') @ '')''"

text \<open>Lines 513 to 681: the run resolved.\<close>

definition handleResolved ::
  "Env \<Rightarrow> CommandReplyParams \<Rightarrow> (nat \<times> nat) option \<Rightarrow> ProcResult \<Rightarrow> CommandReplyResult" where
  "handleResolved env ps queued r =
     (let spec = getAgentSpec env (agent_kind (agentCfg (reply ps)));
          trimmed = trim (stdout r);
          parsed = (if trimmed \<noteq> [] then parseOutput spec trimmed else None);
          items = replyItems env (verboseLevel ps) trimmed parsed;
          m = \<lparr>durationMs = elapsedMs env, queuedMs = map_option fst queued,
               queuedAhead = map_option snd queued, exitCode = code r,
               meta_signal = signal r, meta_killed = Some (killed r),
               agentMeta = (case parsed of Some p \<Rightarrow> meta p | None \<Rightarrow> None)\<rparr>
      in if (case code r of Some c \<Rightarrow> c | None \<Rightarrow> 0) \<noteq> 0 then
           \<lparr>payloads = [textPayload (exitErrorText r trimmed)], reply_meta = m\<rparr>
         else if killed r \<and> (case signal r of Some s \<Rightarrow> s = [] | None \<Rightarrow> True) then
           \<lparr>payloads = [textPayload (killedErrorText r)], reply_meta = m\<rparr>
         else
           \<lparr>payloads = List.map_filter (buildPayload env (reply ps)) items, reply_meta = m\<rparr>)"

text \<open>Lines 698 to 708: the text of the timeout payload.\<close>

definition timeoutBaseMsg :: "CommandReplyParams \<Rightarrow> string" where
  "timeoutBaseMsg ps =
     ''Command timed out after '' @ show_nat (timeoutSeconds ps) @ ''s'' @
     (case cwd (reply ps) of Some c \<Rightarrow> if c \<noteq> [] then '' (cwd: '' @ c @ '')'' else [] | None \<Rightarrow> []) @
     ''. Try a shorter prompt or split the request.''"

definition partialSnippet :: "string option \<Rightarrow> string" where
  "partialSnippet out =
     (case out of
        None \<Rightarrow> []
      | Some s \<Rightarrow> if length (trim s) > 800 then take 800 (trim s) @ ''...'' else trim s)"

definition timeoutText :: "CommandReplyParams \<Rightarrow> ErrObj \<Rightarrow> string" where
  "timeoutText ps e =
     (if partialSnippet (err_stdout e) \<noteq> [] then
        timeoutBaseMsg ps @ [CHR 0x0A, CHR 0x0A] @ ''Partial output before timeout:'' @ [CHR 0x0A] @
        partialSnippet (err_stdout e)
      else timeoutBaseMsg ps)"

text \<open>Lines 682 to 736: the run was rejected.\<close>

definition handleRejected ::
  "Env \<Rightarrow> CommandReplyParams \<Rightarrow> (nat \<times> nat) option \<Rightarrow> ErrObj \<Rightarrow> CommandReplyResult" where
  "handleRejected env ps queued e =
     (let timeoutHit = (err_killed e = Some True \<or> err_signal e = Some ''SIGKILL'');
          m = \<lparr>durationMs = elapsedMs env, queuedMs = map_option fst queued,
               queuedAhead = map_option snd queued, exitCode = None,
               meta_signal = err_signal e, meta_killed = err_killed e, agentMeta = None\<rparr>
      in if timeoutHit then \<lparr>payloads = [textPayload (timeoutText ps e)], reply_meta = m\<rparr>
         else \<lparr>payloads = [textPayload (warning_sign @ '' Command failed: '' @ err_message e)],
               reply_meta = m\<rparr>)"

text \<open>
  \<open>runCommandReply\<close>. A value of \<open>Inl\<close> is thrown to the caller: by the \<open>throw\<close> outside the
  \<open>try\<close>, and by the \<open>catch\<close> block itself when the run rejected with \<open>undefined\<close> or
  \<open>null\<close>, since \<open>anyErr.killed\<close> at line 689 then throws a \<open>TypeError\<close> that nothing
  catches. Every other value thrown inside the \<open>try\<close> ends in \<open>handleRejected\<close>.
\<close>

definition argvOf :: "Env \<Rightarrow> CommandReplyParams \<Rightarrow> string list \<Rightarrow> string list \<times> nat" where
  "argvOf env ps cmd =
     (let argv = injectSessionArgs env ps (templatedArgv env ps cmd)
      in applyThinking (agent_kind (agentCfg (reply ps))) (thinkLevel ps) (argv, bodyIndexOf argv))"

definition requestOf :: "Env \<Rightarrow> CommandReplyParams \<Rightarrow> string list \<Rightarrow> RunRequest" where
  "requestOf env ps cmd = runRequest ps (finalArgvOf env ps (argvOf env ps cmd))"

definition runCommandReply :: "Env \<Rightarrow> CommandReplyParams \<Rightarrow> error + CommandReplyResult" where
  "runCommandReply env ps =
     (case command (reply ps) of
        None \<Rightarrow> Inl (Error ''reply.command is required for mode=command'')
      | Some [] \<Rightarrow> Inl (Error ''reply.command is required for mode=command'')
      | Some (c # cs) \<Rightarrow>
          (case enqueue env (requestOf env ps (c # cs)) of
             (queued, Resolved r) \<Rightarrow> Inr (handleResolved env ps queued r)
           | (queued, Rejected e) \<Rightarrow> Inr (handleRejected env ps queued e)
           | (queued, RejectedNullish) \<Rightarrow> Inl TypeError))"

section \<open>The stream of the pi parser, as the specification describes it\<close>

text \<open>
  The role and the text of the message of an event; a completed assistant message (type
  \<open>message\<close> or \<open>message_end\<close>, role \<open>assistant\<close>, an array as content) with its text; a
  completed message whose role contains \<open>tool\<close>, in any case, with its text.
\<close>

definition role_of :: "json \<Rightarrow> string option" where
  "role_of ev =
     (case get_prop ev ''message'' of
        Some (JObj m) \<Rightarrow> (case map_of m ''role'' of Some (JStr r) \<Rightarrow> Some r | _ \<Rightarrow> None)
      | _ \<Rightarrow> None)"

definition content_text_of :: "json \<Rightarrow> string option" where
  "content_text_of ev =
     (case get_prop ev ''message'' of
        Some (JObj m) \<Rightarrow>
          (case map_of m ''content'' of
             Some (JArr cs) \<Rightarrow> Some (trim (join [CHR 0x0A] (List.map_filter text_part cs)))
           | _ \<Rightarrow> None)
      | _ \<Rightarrow> None)"

definition assistant_event :: "(string \<Rightarrow> json option) \<Rightarrow> string \<Rightarrow> (json \<times> string) option" where
  "assistant_event P l =
     (case P l of
        None \<Rightarrow> None
      | Some ev \<Rightarrow>
          if typeOk ev \<and> role_of ev = Some ''assistant'' then
            (case (get_prop ev ''message'', content_text_of ev) of
               (Some m, Some t) \<Rightarrow> Some (m, t)
             | _ \<Rightarrow> None)
          else None)"

definition tool_event :: "(string \<Rightarrow> json option) \<Rightarrow> string \<Rightarrow> string option" where
  "tool_event P l =
     (case P l of
        None \<Rightarrow> None
      | Some ev \<Rightarrow>
          if typeOk ev \<and> (case role_of ev of Some r \<Rightarrow> includes_str (toLowerCase r) ''tool'' | None \<Rightarrow> False)
          then content_text_of ev
          else None)"

text \<open>The assistant messages whose text is appended to \<open>texts\<close>: the text is not empty
  and differs from the text appended last, \<open>lp\<close>.\<close>

fun appended :: "string option \<Rightarrow> (json \<times> string) list \<Rightarrow> (json \<times> string) list" where
  "appended lp [] = []"
| "appended lp ((m, t) # es) =
     (if t \<noteq> [] \<and> Some t \<noteq> lp then (m, t) # appended (Some t) es else appended lp es)"

text \<open>The completed assistant messages of the lines, their texts that are not empty, and
  the texts of the tool messages that are not empty, each in the order of the stream.\<close>

definition assistant_events :: "(string \<Rightarrow> json option) \<Rightarrow> string list \<Rightarrow> (json \<times> string) list" where
  "assistant_events P ls = List.map_filter (assistant_event P) ls"

definition assistant_texts :: "(string \<Rightarrow> json option) \<Rightarrow> string list \<Rightarrow> string list" where
  "assistant_texts P ls = filter (\<lambda>t. t \<noteq> []) (map snd (assistant_events P ls))"

definition tool_texts :: "(string \<Rightarrow> json option) \<Rightarrow> string list \<Rightarrow> string list" where
  "tool_texts P ls = filter (\<lambda>t. t \<noteq> []) (List.map_filter (tool_event P) ls)"

section \<open>Failure of a run\<close>





section \<open>The body and the session flags\<close>

text \<open>The session flags are put after the body, the last argument of the templated
  command: they are appended, or the command has a single argument. Line 422 then moves
  the body index to the last flag.\<close>

definition flagsAfterBody :: "Env \<Rightarrow> CommandReplyParams \<Rightarrow> string list \<Rightarrow> bool" where
  "flagsAfterBody env ps argv =
     (case session (reply ps) of
        None \<Rightarrow> False
      | Some s \<Rightarrow>
          sessionArgList env ps s \<noteq> [] \<and> (sessionArgBeforeBody s = Some False \<or> length argv \<le> 1))"

section \<open>The media cap\<close>

text \<open>The media the cap keeps: the http(s) URLs, the paths that cannot be measured, and
  the files of at most \<open>maxBytes\<close> bytes.\<close>

definition keepMedia :: "Env \<Rightarrow> rat \<Rightarrow> string \<Rightarrow> bool" where
  "keepMedia env maxBytes url =
     (is_http_url url \<or>
      (case stat_size env (absPath env url) of None \<Rightarrow> True | Some sz \<Rightarrow> of_nat sz \<le> maxBytes))"

section \<open>Example inputs\<close>

text \<open>A stream of the pi agent: the same assistant message twice, a line that is not
  JSON between them, and a tool result; \<open>ex_parse\<close> is \<open>JSON.parse\<close> on its lines.\<close>

definition ex_assistant_line :: string where
  \<open>ex_assistant_line = ''{"type":"message_end","message":{"role":"assistant","content":[{"type":"text","text":"hi"}],"model":"m1"}}''\<close>

definition ex_tool_line :: string where
  \<open>ex_tool_line = ''{"type":"message","message":{"role":"toolResult","content":[{"type":"text","text":"ls"}]}}''\<close>

definition ex_assistant_msg :: json where
  "ex_assistant_msg =
     JObj [(''role'', JStr ''assistant''),
           (''content'', JArr [JObj [(''type'', JStr ''text''), (''text'', JStr ''hi'')]]),
           (''model'', JStr ''m1'')]"

definition ex_parse :: "string \<Rightarrow> json option" where
  "ex_parse =
     map_of
       [(ex_assistant_line, JObj [(''type'', JStr ''message_end''), (''message'', ex_assistant_msg)]),
        (ex_tool_line,
           JObj [(''type'', JStr ''message''),
                 (''message'', JObj [(''role'', JStr ''toolResult''),
                    (''content'', JArr [JObj [(''type'', JStr ''text''), (''text'', JStr ''ls'')]])])])]"

definition ex_stream :: string where
  "ex_stream =
     ex_assistant_line @ [CHR 0x0A] @ ''{ not json'' @ [CHR 0x0A] @ ex_assistant_line @
     [CHR 0x0A] @ ex_tool_line @ [CHR 0x0A]"

text \<open>A template engine for the examples: it substitutes a template that is exactly the
  token \<open>{{SessionId}}\<close> or \<open>{{Body}}\<close> and leaves every other string as it is.\<close>

definition ex_template :: "string \<Rightarrow> TemplateContext \<Rightarrow> string" where
  "ex_template s ctx =
     (if s = ''{{SessionId}}'' then (case SessionId ctx of Some i \<Rightarrow> i | None \<Rightarrow> [])
      else if s = ''{{Body}}'' then (case Body ctx of Some b \<Rightarrow> b | None \<Rightarrow> [])
      else s)"

definition ex_ctx :: TemplateContext where
  "ex_ctx =
     \<lparr>Body = Some ''hello'', BodyStripped = Some ''hello'', From = Some ''+1'', To = Some ''+2'',
      MessageSid = None, SessionId = Some ''abc'', IsNewSession = Some ''true'', MediaPath = None\<rparr>"

text \<open>An environment in which every run settles as \<open>out\<close>, with no one ahead in the queue;
  the media splitter finds no media; one file, of 2048 bytes, can be measured.\<close>

definition ex_env :: "RunOutcome \<Rightarrow> Env" where
  "ex_env out =
     \<lparr>applyTemplate = ex_template,
      getAgentSpec = (\<lambda>k. piSpec ex_parse),
      splitMediaFromOutput = (\<lambda>t. (t, None)),
      enqueue = (\<lambda>req. (None, out)),
      stat_size = (\<lambda>p. if p = ''/tmp/cat.png'' then Some 2048 else None),
      path_resolve = (\<lambda>p. ''/work/'' @ p),
      elapsedMs = 5\<rparr>"

definition ex_reply :: CommandReplyConfig where
  "ex_reply =
     \<lparr>command = Some [''pi'', ''{{Body}}''], template = None, cwd = None,
      mediaUrl = None, mediaMaxMb = None,
      session = Some \<lparr>sessionArgNew = None, sessionArgResume = None, sessionArgBeforeBody = None\<rparr>,
      agent = Some \<lparr>agent_kind = Pi, agent_format = Some FormatJson, agent_identityPrefix = None\<rparr>\<rparr>"

definition ex_params :: CommandReplyParams where
  "ex_params =
     \<lparr>reply = ex_reply, templatingCtx = ex_ctx, sendSystemOnce = False, isNewSession = True,
      isFirstTurnInSession = True, systemSent = False, timeoutMs = 100000, timeoutSeconds = 100,
      thinkLevel = None, verboseLevel = None\<rparr>"

definition ex_result :: "string \<Rightarrow> RunOutcome" where
  "ex_result out = Resolved \<lparr>stdout = out, stderr = None, code = Some 0, signal = None, killed = False\<rparr>"

text \<open>The same with the default agent, claude.\<close>

definition ex_claude_params :: CommandReplyParams where
  "ex_claude_params = ex_params\<lparr>reply := ex_reply\<lparr>command := Some [''claude'', ''-p'', ''{{Body}}''], agent := None\<rparr>\<rparr>"


definition ex_timeout :: RunOutcome where
  "ex_timeout =
     Rejected \<lparr>err_killed = Some True, err_signal = Some ''SIGKILL'',
               err_stdout = Some ''partial answer'', err_stderr = None,
               err_message = ''Command failed''\<rparr>"


text \<open>Replies that attach a local file under a cap of 1 MB: one that cannot be measured,
  and one of 2048 bytes.\<close>

definition ex_missing_params :: CommandReplyParams where
  "ex_missing_params =
     ex_params\<lparr>reply := ex_reply\<lparr>mediaUrl := Some ''/tmp/missing.png'', mediaMaxMb := Some 1\<rparr>\<rparr>"

definition ex_cat_params :: CommandReplyParams where
  "ex_cat_params =
     ex_params\<lparr>reply := ex_reply\<lparr>mediaUrl := Some ''/tmp/cat.png'', mediaMaxMb := Some 1\<rparr>\<rparr>"

text \<open>Claude sessions with a thinking level: a prompt, a prompt of one space, and a
  prompt with the session flags appended after it; and a pi session.\<close>

definition ex_think_params :: CommandReplyParams where
  "ex_think_params = ex_claude_params\<lparr>thinkLevel := Some High\<rparr>"

definition ex_blank_params :: CommandReplyParams where
  "ex_blank_params =
     ex_claude_params\<lparr>templatingCtx := ex_ctx\<lparr>Body := Some '' ''\<rparr>, thinkLevel := Some Low\<rparr>"

definition ex_appended_params :: CommandReplyParams where
  "ex_appended_params =
     ex_claude_params
       \<lparr>reply := ex_reply
          \<lparr>command := Some [''claude'', ''-p'', ''{{Body}}''], agent := None,
           session := Some \<lparr>sessionArgNew = None, sessionArgResume = None,
                             sessionArgBeforeBody = Some False\<rparr>\<rparr>,
        thinkLevel := Some High\<rparr>"

definition ex_pi_think_params :: CommandReplyParams where
  "ex_pi_think_params = ex_params\<lparr>thinkLevel := Some Low\<rparr>"






section \<open>The pi parser\<close>

lemma assistant_not_tool: "\<not> includes_str (toLowerCase ''assistant'') ''tool''"
  by (simp add: includes_str_def toLowerCase_def to_lower_char_def sublist_code)

lemma tool_nonempty: "includes_str (toLowerCase r) ''tool'' \<Longrightarrow> r \<noteq> []"
  by (auto simp: includes_str_def toLowerCase_def)

lemma isAssistantMessage_iff:
  "isAssistantMessage ev \<longleftrightarrow>
     typeOk ev \<and> role_of ev = Some ''assistant'' \<and> content_text_of ev \<noteq> None"
proof (cases "get_prop ev ''message''")
  case None
  then show ?thesis by (simp add: isAssistantMessage_def role_of_def)
next
  case (Some msg)
  then show ?thesis
    by (cases msg)
      (auto simp: isAssistantMessage_def role_of_def content_text_of_def
        split: option.splits json.splits)
qed

lemma isToolResult_iff:
  "isToolResult ev \<longleftrightarrow>
     typeOk ev \<and> (case role_of ev of Some r \<Rightarrow> includes_str (toLowerCase r) ''tool'' | None \<Rightarrow> False)"
proof (cases "get_prop ev ''message''")
  case None
  then show ?thesis by (simp add: isToolResult_def role_of_def)
next
  case (Some msg)
  then show ?thesis
    by (cases msg)
      (auto simp: isToolResult_def role_of_def dest: tool_nonempty
        split: option.splits json.splits)
qed

lemma msgText_role:
  assumes "role_of ev = Some r"
  shows "msgText (opt_prop (get_prop ev ''message'') ''content'') =
           (case content_text_of ev of Some t \<Rightarrow> Text t
            | None \<Rightarrow> msgText (opt_prop (get_prop ev ''message'') ''content''))"
    and "content_text_of ev = None \<Longrightarrow>
           \<forall>t. msgText (opt_prop (get_prop ev ''message'') ''content'') \<noteq> Text t"
    and "\<exists>m. get_prop ev ''message'' = Some m"
  using assms
  by (auto simp: role_of_def content_text_of_def split: option.splits json.splits)

lemma pi_line_cases:
  "pi_line P st l =
     (case assistant_event P l of
        Some (m, t) \<Rightarrow>
          (if t \<noteq> [] \<and> Some t \<noteq> st_lastPushed st
           then st\<lparr>st_texts := st_texts st @ [t], st_lastPushed := Some t, st_lastAssistant := Some m\<rparr>
           else st)
      | None \<Rightarrow>
          (case tool_event P l of
             Some t \<Rightarrow> if t \<noteq> [] then st\<lparr>st_toolResults := st_toolResults st @ [t]\<rparr> else st
           | None \<Rightarrow> st))"
proof (cases "P l")
  case None
  then show ?thesis by (simp add: pi_line_def assistant_event_def tool_event_def)
next
  case (Some ev)
  note ev = Some
  show ?thesis
  proof (cases "typeOk ev")
    case False
    then show ?thesis using ev
      by (cases ev) (simp_all add: pi_line_def assistant_event_def tool_event_def isAssistantMessage_iff isToolResult_iff)
  next
    case True
    then have nn: "ev \<noteq> JNull" by (auto simp: typeOk_def)
    show ?thesis
    proof (cases "role_of ev")
      case None
      then show ?thesis using ev True nn
        by (cases ev) (simp_all add: pi_line_def assistant_event_def tool_event_def isAssistantMessage_iff isToolResult_iff)
    next
      case (Some r)
      from msgText_role(3)[OF Some] obtain m where m: "get_prop ev ''message'' = Some m" by blast
      show ?thesis
      proof (cases "content_text_of ev")
        case None
        with msgText_role(2)[OF Some] have "\<forall>t. msgText (opt_prop (get_prop ev ''message'') ''content'') \<noteq> Text t" by simp
        then show ?thesis using ev True nn Some None m
          by (cases ev; cases "msgText (opt_prop (get_prop ev ''message'') ''content'')")
             (simp_all add: pi_line_def assistant_event_def tool_event_def isAssistantMessage_iff isToolResult_iff)
      next
        case (Some t)
        with msgText_role(1)[OF \<open>role_of ev = Some r\<close>]
        have "msgText (opt_prop (get_prop ev ''message'') ''content'') = Text t" by simp
        then show ?thesis using ev True nn Some \<open>role_of ev = Some r\<close> m assistant_not_tool
          by (cases ev)
             (auto simp add: pi_line_def assistant_event_def tool_event_def isAssistantMessage_iff isToolResult_iff)
      qed
    qed
  qed
qed


lemma assistant_tool_disjoint:
  "assistant_event P l = Some e \<Longrightarrow> tool_event P l = None"
  using assistant_not_tool
  by (auto simp: assistant_event_def tool_event_def split: option.splits if_splits)

lemma foldl_pi_line:
  "st_texts (foldl (pi_line P) st ls) =
     st_texts st @ map snd (appended (st_lastPushed st) (assistant_events P ls))"
  "st_toolResults (foldl (pi_line P) st ls) = st_toolResults st @ tool_texts P ls"
  "st_lastAssistant (foldl (pi_line P) st ls) =
     (case appended (st_lastPushed st) (assistant_events P ls) of
        [] \<Rightarrow> st_lastAssistant st
      | e # es \<Rightarrow> Some (fst (last (e # es))))"
proof (induction ls arbitrary: st)
  case Nil
  {
    case 1 show ?case by (simp add: assistant_events_def)
  next
    case 2 show ?case by (simp add: tool_texts_def)
  next
    case 3 show ?case by (simp add: assistant_events_def)
  }
next
  case (Cons l ls)
  {
    case 1 show ?case
      apply (simp only: foldl_Cons Cons.IH(1))
      apply (simp add: pi_line_cases assistant_events_def split: option.splits)
      done
  next
    case 2 show ?case
      apply (simp only: foldl_Cons Cons.IH(2))
      apply (auto simp add: pi_line_cases tool_texts_def dest: assistant_tool_disjoint split: option.splits)
      done
  next
    case 3 show ?case
      apply (simp only: foldl_Cons Cons.IH(3))
      apply (simp add: pi_line_cases assistant_events_def split: option.splits list.splits)
      done
  }
qed

lemma appended_remdups_Some:
  "map snd (appended (Some p) es) = tl (remdups_adj (p # filter (\<lambda>t. t \<noteq> []) (map snd es)))"
proof (induction es arbitrary: p)
  case Nil
  show ?case by simp
next
  case (Cons e es)
  obtain m t where e: "e = (m, t)" by (cases e)
  show ?case using Cons.IH[of t] Cons.IH[of p] by (simp add: e)
qed

lemma appended_remdups:
  "map snd (appended None es) = remdups_adj (filter (\<lambda>t. t \<noteq> []) (map snd es))"
proof (induction es)
  case Nil
  show ?case by simp
next
  case (Cons e es)
  obtain m t where e: "e = (m, t)" by (cases e)
  show ?case using Cons.IH by (simp add: e appended_remdups_Some)
qed

lemma pi_line_malformed: "P l = None \<Longrightarrow> pi_line P st l = st"
  by (simp add: pi_line_def)

lemma foldl_skip_malformed:
  "foldl (pi_line P) st (filter (\<lambda>l. P l \<noteq> None) ls) = foldl (pi_line P) st ls"
  by (induction ls arbitrary: st) (simp_all add: pi_line_malformed)

lemma includes_lower:
  "includes_str r ''tool'' \<Longrightarrow> includes_str (toLowerCase r) ''tool''"
proof -
  assume "includes_str r ''tool''"
  then obtain ps ss where "r = ps @ ''tool'' @ ss" by (auto simp: includes_str_def sublist_def)
  then have "toLowerCase r = toLowerCase ps @ ''tool'' @ toLowerCase ss"
    by (simp add: toLowerCase_def to_lower_char_def)
  then show ?thesis unfolding includes_str_def by (metis sublist_appendI)
qed



lemma toLowerCase_length [simp]: "length (toLowerCase s) = length s"
  by (simp add: toLowerCase_def)

lemma toLowerCase_append [simp]: "toLowerCase (a @ b) = toLowerCase a @ toLowerCase b"
  by (simp add: toLowerCase_def)

lemma strip_js_ext_cases:
  "strip_js_ext b = c \<longleftrightarrow>
     (\<exists>e. b = c @ e \<and> (toLowerCase e = ''.mjs'' \<or>
        (toLowerCase e = ''.js'' \<and> \<not> suffix ''.mjs'' (toLowerCase b)) \<or>
        (e = [] \<and> \<not> suffix ''.mjs'' (toLowerCase b) \<and> \<not> suffix ''.js'' (toLowerCase b))))"
  (is "?L \<longleftrightarrow> ?R")
proof
  assume L: ?L
  show ?R
  proof (cases "suffix ''.mjs'' (toLowerCase b)")
    case True
    then obtain p where p: "toLowerCase b = p @ ''.mjs''" by (auto simp: suffix_def)
    then have len: "length b = length p + 4" by (metis toLowerCase_length length_append list.size(3,4) Suc_eq_plus1 add.commute add_Suc_right numeral_plus_one One_nat_def add_2_eq_Suc' numeral_Bit0)
    have "toLowerCase (drop (length b - 4) b) = drop (length b - 4) (toLowerCase b)"
      by (simp add: toLowerCase_def drop_map)
    also have "\<dots> = ''.mjs''" using p len by simp
    finally have "toLowerCase (drop (length b - 4) b) = ''.mjs''" .
    moreover have "b = take (length b - 4) b @ drop (length b - 4) b" by simp
    moreover have "c = take (length b - 4) b" using L True by (simp add: strip_js_ext_def)
    ultimately show ?thesis by metis
  next
    case False
    note nm = False
    show ?thesis
    proof (cases "suffix ''.js'' (toLowerCase b)")
      case True
      then obtain p where p: "toLowerCase b = p @ ''.js''" by (auto simp: suffix_def)
      then have len: "length b = length p + 3" by (metis toLowerCase_length length_append list.size(3,4) Suc_eq_plus1 add.commute add_Suc_right numeral_plus_one One_nat_def add_2_eq_Suc' numeral_3_eq_3)
      have "toLowerCase (drop (length b - 3) b) = drop (length b - 3) (toLowerCase b)"
        by (simp add: toLowerCase_def drop_map)
      also have "\<dots> = ''.js''" using p len by simp
      finally have "toLowerCase (drop (length b - 3) b) = ''.js''" .
      moreover have "b = take (length b - 3) b @ drop (length b - 3) b" by simp
      moreover have "c = take (length b - 3) b" using L True nm by (simp add: strip_js_ext_def)
      ultimately show ?thesis using nm by metis
    next
      case False
      then show ?thesis using L nm by (simp add: strip_js_ext_def)
    qed
  qed
next
  assume ?R
  then obtain e where b: "b = c @ e" and e: "toLowerCase e = ''.mjs'' \<or>
        (toLowerCase e = ''.js'' \<and> \<not> suffix ''.mjs'' (toLowerCase b)) \<or>
        (e = [] \<and> \<not> suffix ''.mjs'' (toLowerCase b) \<and> \<not> suffix ''.js'' (toLowerCase b))" by blast
  from e show ?L
  proof (elim disjE conjE)
    assume h: "toLowerCase e = ''.mjs''"
    then have "length e = 4" by (metis toLowerCase_length length_Cons list.size(3) numeral_eq_Suc pred_numeral_simps(2) semiring_norm(26,27) One_nat_def Suc_1 eval_nat_numeral(3))
    moreover have "suffix ''.mjs'' (toLowerCase b)" using h b by (simp add: suffix_def)
    ultimately show ?L using b by (simp add: strip_js_ext_def)
  next
    assume h: "toLowerCase e = ''.js''" and nm: "\<not> suffix ''.mjs'' (toLowerCase b)"
    then have "length e = 3" by (metis toLowerCase_length length_Cons list.size(3) numeral_3_eq_3)
    moreover have "suffix ''.js'' (toLowerCase b)" using h b by (simp add: suffix_def)
    ultimately show ?L using b nm by (simp add: strip_js_ext_def)
  next
    assume "e = []" "\<not> suffix ''.mjs'' (toLowerCase b)" "\<not> suffix ''.js'' (toLowerCase b)"
    then show ?L using b by (simp add: strip_js_ext_def)
  qed
qed

lemma ex_stream_lines:
  "pi_lines ex_stream = [ex_assistant_line, ''{ not json'', ex_assistant_line, ex_tool_line]"
  by code_simp

lemma ex_events:
  "assistant_event ex_parse ex_assistant_line = Some (ex_assistant_msg, ''hi'')"
  "assistant_event ex_parse ''{ not json'' = None"
  "assistant_event ex_parse ex_tool_line = None"
  "tool_event ex_parse ex_assistant_line = None"
  "tool_event ex_parse ''{ not json'' = None"
  "tool_event ex_parse ex_tool_line = Some ''ls''"
  by code_simp+


lemma parsePiJson_texts:
  "texts (parsePiJson P raw) = map snd (appended None (assistant_events P (pi_lines raw)))"
  by (simp add: parsePiJson_def pi_run_def pi_finish_def foldl_pi_line(1) pi_init_def)

lemma parsePiJson_toolResults:
  "toolResults (parsePiJson P raw) =
     (if tool_texts P (pi_lines raw) = [] then None else Some (tool_texts P (pi_lines raw)))"
  by (simp add: parsePiJson_def pi_run_def pi_finish_def foldl_pi_line(2) pi_init_def)

lemma parsePiJson_metadata:
  "meta (parsePiJson P raw) =
     (case appended None (assistant_events P (pi_lines raw)) of
        [] \<Rightarrow> None
      | e # es \<Rightarrow> Some (pi_meta (fst (last (e # es)))))"
  by (simp add: parsePiJson_def pi_run_def pi_finish_def foldl_pi_line(1,3) pi_init_def
      split: list.splits)

lemma in_set_map_filter:
  "y \<in> set (List.map_filter f xs) \<longleftrightarrow> (\<exists>x\<in>set xs. f x = Some y)"
  by (induction xs) (auto split: option.splits)

lemma tool_event_member:
  "l \<in> set ls \<Longrightarrow> tool_event P l = Some t \<Longrightarrow> t \<noteq> [] \<Longrightarrow> t \<in> set (tool_texts P ls)"
  by (force simp: tool_texts_def in_set_map_filter)

lemma assistant_texts_member:
  "t \<in> set (assistant_texts P ls) \<Longrightarrow> \<exists>l\<in>set ls. \<exists>m. assistant_event P l = Some (m, t)"
  by (force simp: assistant_texts_def assistant_events_def in_set_map_filter)

text \<open>
  Claim C4. For every stream given to the pi parser: \<open>texts\<close> holds exactly the texts of
  the completed assistant messages (type \<open>message\<close> or \<open>message_end\<close>, role \<open>assistant\<close>,
  array content) that are not empty, with runs of equal texts collapsed, so every element
  of \<open>texts\<close> comes from such a message; \<open>toolResults\<close> holds the texts of the completed
  messages whose role contains \<open>tool\<close>, and is \<open>undefined\<close> when there is none; two
  identical assistant texts in a row give one element; and the lines \<open>JSON.parse\<close> rejects
  can be removed from the stream without changing the result.
\<close>

theorem parsePiJson_stream:
  "texts (parsePiJson P raw) = remdups_adj (assistant_texts P (pi_lines raw)) \<and>
   (\<forall>t\<in>set (texts (parsePiJson P raw)).
      \<exists>l\<in>set (pi_lines raw). \<exists>m. assistant_event P l = Some (m, t)) \<and>
   toolResults (parsePiJson P raw) =
     (if tool_texts P (pi_lines raw) = [] then None else Some (tool_texts P (pi_lines raw))) \<and>
   (\<forall>l ev r t. l \<in> set (pi_lines raw) \<and> P l = Some ev \<and> typeOk ev \<and> role_of ev = Some r \<and>
      includes_str r ''tool'' \<and> content_text_of ev = Some t \<and> t \<noteq> [] \<longrightarrow>
      (\<exists>trs. toolResults (parsePiJson P raw) = Some trs \<and> t \<in> set trs)) \<and>
   (\<forall>t. assistant_texts P (pi_lines raw) = [t, t] \<longrightarrow> texts (parsePiJson P raw) = [t]) \<and>
   parsePiJson P raw = pi_run P (filter (\<lambda>l. P l \<noteq> None) (pi_lines raw))"
proof (intro conjI)
  show t: "texts (parsePiJson P raw) = remdups_adj (assistant_texts P (pi_lines raw))"
    by (simp add: parsePiJson_texts appended_remdups assistant_texts_def)
  show "\<forall>t\<in>set (texts (parsePiJson P raw)).
      \<exists>l\<in>set (pi_lines raw). \<exists>m. assistant_event P l = Some (m, t)"
    using assistant_texts_member[of _ P "pi_lines raw"] by (simp add: t)
  show "toolResults (parsePiJson P raw) =
     (if tool_texts P (pi_lines raw) = [] then None else Some (tool_texts P (pi_lines raw)))"
    by (rule parsePiJson_toolResults)
  show "\<forall>l ev r t. l \<in> set (pi_lines raw) \<and> P l = Some ev \<and> typeOk ev \<and> role_of ev = Some r \<and>
      includes_str r ''tool'' \<and> content_text_of ev = Some t \<and> t \<noteq> [] \<longrightarrow>
      (\<exists>trs. toolResults (parsePiJson P raw) = Some trs \<and> t \<in> set trs)"
  proof (intro allI impI, elim conjE)
    fix l ev r t
    assume l: "l \<in> set (pi_lines raw)" and ev: "P l = Some ev" and ok: "typeOk ev"
      and r: "role_of ev = Some r" and inc: "includes_str r ''tool''"
      and c: "content_text_of ev = Some t" and ne: "t \<noteq> []"
    have "tool_event P l = Some t"
      using ev ok r c includes_lower[OF inc] by (simp add: tool_event_def)
    then have "t \<in> set (tool_texts P (pi_lines raw))" using tool_event_member[of l "pi_lines raw" P t] l ne by blast
    then show "\<exists>trs. toolResults (parsePiJson P raw) = Some trs \<and> t \<in> set trs"
      by (auto simp: parsePiJson_toolResults)
  qed
  show "\<forall>t. assistant_texts P (pi_lines raw) = [t, t] \<longrightarrow> texts (parsePiJson P raw) = [t]"
    by (simp add: t)
  show "parsePiJson P raw = pi_run P (filter (\<lambda>l. P l \<noteq> None) (pi_lines raw))"
    unfolding parsePiJson_def pi_run_def foldl_skip_malformed ..
qed

lemma ex_assistant_texts: "assistant_texts ex_parse (pi_lines ex_stream) = [''hi'', ''hi'']"
  by (simp add: ex_stream_lines assistant_texts_def assistant_events_def ex_events)

lemma ex_malformed: "ex_parse ''{ not json'' = None"
  by code_simp

text \<open>The example stream: two equal assistant messages, a malformed line, a tool result.\<close>

theorem parsePiJson_stream_witness:
  "''{ not json'' \<in> set (pi_lines ex_stream) \<and> ex_parse ''{ not json'' = None \<and>
   assistant_texts ex_parse (pi_lines ex_stream) = [''hi'', ''hi''] \<and>
   texts (parsePiJson ex_parse ex_stream) = [''hi''] \<and>
   toolResults (parsePiJson ex_parse ex_stream) = Some [''ls'']"
proof -
  have tt: "tool_texts ex_parse (pi_lines ex_stream) = [''ls'']"
    by (simp add: ex_stream_lines tool_texts_def ex_events)
  note th = parsePiJson_stream[of ex_parse ex_stream]
  from th have "\<forall>t. assistant_texts ex_parse (pi_lines ex_stream) = [t, t] \<longrightarrow>
      texts (parsePiJson ex_parse ex_stream) = [t]" by blast
  then have t1: "texts (parsePiJson ex_parse ex_stream) = [''hi'']"
    using ex_assistant_texts by blast
  from th have "toolResults (parsePiJson ex_parse ex_stream) =
     (if tool_texts ex_parse (pi_lines ex_stream) = [] then None
      else Some (tool_texts ex_parse (pi_lines ex_stream)))" by blast
  then have t2: "toolResults (parsePiJson ex_parse ex_stream) = Some [''ls'']"
    by (simp add: tt)
  have t3: "''{ not json'' \<in> set (pi_lines ex_stream)" by (simp add: ex_stream_lines)
  show ?thesis using t1 t2 t3 ex_malformed ex_assistant_texts by blast
qed

text \<open>
  Claim C9. In the result of the pi parser \<open>meta\<close> is defined if and only if \<open>texts\<close> is
  not empty, and then its \<open>model\<close>, \<open>provider\<close>, \<open>stopReason\<close> and \<open>usage\<close> are those of the
  last assistant message whose text was appended to \<open>texts\<close>.
\<close>

theorem parsePiJson_meta:
  "(meta (parsePiJson P raw) = None \<longleftrightarrow> texts (parsePiJson P raw) = []) \<and>
   texts (parsePiJson P raw) = map snd (appended None (assistant_events P (pi_lines raw))) \<and>
   (\<forall>es m t. appended None (assistant_events P (pi_lines raw)) = es @ [(m, t)] \<longrightarrow>
      (\<exists>r. meta (parsePiJson P raw) = Some r \<and>
           model r = get_prop m ''model'' \<and> provider r = get_prop m ''provider'' \<and>
           stopReason r = get_prop m ''stopReason'' \<and> usage r = get_prop m ''usage''))"
proof (intro conjI allI impI)
  show "meta (parsePiJson P raw) = None \<longleftrightarrow> texts (parsePiJson P raw) = []"
    by (simp add: parsePiJson_metadata parsePiJson_texts split: list.splits)
  show "texts (parsePiJson P raw) = map snd (appended None (assistant_events P (pi_lines raw)))"
    by (rule parsePiJson_texts)
next
  fix es m t
  assume a: "appended None (assistant_events P (pi_lines raw)) = es @ [(m, t)]"
  then have "meta (parsePiJson P raw) = Some (pi_meta m)"
    by (cases es) (simp_all add: parsePiJson_metadata)
  then show "\<exists>r. meta (parsePiJson P raw) = Some r \<and>
           model r = get_prop m ''model'' \<and> provider r = get_prop m ''provider'' \<and>
           stopReason r = get_prop m ''stopReason'' \<and> usage r = get_prop m ''usage''"
    by (simp add: pi_meta_def)
qed

text \<open>On the example stream the one appended message is the first assistant message.\<close>

theorem parsePiJson_meta_witness:
  "appended None (assistant_events ex_parse (pi_lines ex_stream)) = [] @ [(ex_assistant_msg, ''hi'')] \<and>
   (\<exists>r. meta (parsePiJson ex_parse ex_stream) = Some r \<and> model r = Some (JStr ''m1'') \<and>
        provider r = None)"
proof -
  have a: "appended None (assistant_events ex_parse (pi_lines ex_stream)) = [] @ [(ex_assistant_msg, ''hi'')]"
    by (simp add: ex_stream_lines assistant_events_def ex_events)
  have m: "get_prop ex_assistant_msg ''model'' = Some (JStr ''m1'')" "get_prop ex_assistant_msg ''provider'' = None"
    by (simp_all add: ex_assistant_msg_def)
  show ?thesis
    using parsePiJson_meta[of ex_parse ex_stream] a m by (metis append_Nil)
qed





text \<open>
  Claim C8, as amended. For every argv that is not empty, the matcher of the pi agent
  returns true if and only if the basename of \<open>argv[0]\<close> is \<open>pi\<close> or \<open>tau\<close>, possibly
  followed by the extension \<open>.js\<close> or \<open>.mjs\<close> in any case.
\<close>

theorem pi_isInvocation_iff:
  "argv \<noteq> [] \<Longrightarrow>
     pi_isInvocation argv \<longleftrightarrow>
       (\<exists>b e. basename (hd argv) = b @ e \<and> (b = ''pi'' \<or> b = ''tau'') \<and>
              (e = [] \<or> toLowerCase e = ''.js'' \<or> toLowerCase e = ''.mjs''))"
proof -
  assume ne: "argv \<noteq> []"
  then obtain a rest where argv: "argv = a # rest" by (cases argv) auto
  have low: "toLowerCase ''pi'' = ''pi''" "toLowerCase ''tau'' = ''tau''"
    by (simp_all add: toLowerCase_def to_lower_char_def)
  have key: "strip_js_ext x = b \<longleftrightarrow>
      (\<exists>e. x = b @ e \<and> (e = [] \<or> toLowerCase e = ''.js'' \<or> toLowerCase e = ''.mjs''))"
    if b: "b = ''pi'' \<or> b = ''tau''" for x b
  proof
    assume "strip_js_ext x = b"
    then show "\<exists>e. x = b @ e \<and> (e = [] \<or> toLowerCase e = ''.js'' \<or> toLowerCase e = ''.mjs'')"
      unfolding strip_js_ext_cases by blast
  next
    assume "\<exists>e. x = b @ e \<and> (e = [] \<or> toLowerCase e = ''.js'' \<or> toLowerCase e = ''.mjs'')"
    then obtain e where x: "x = b @ e"
      and e: "e = [] \<or> toLowerCase e = ''.js'' \<or> toLowerCase e = ''.mjs''" by blast
    from e show "strip_js_ext x = b"
    proof (elim disjE)
      assume "e = []"
      then show ?thesis using x b low unfolding strip_js_ext_cases
        by (auto simp: suffix_to_prefix)
    next
      assume "toLowerCase e = ''.js''"
      then show ?thesis using x b low unfolding strip_js_ext_cases
        by (auto simp: suffix_to_prefix)
    next
      assume "toLowerCase e = ''.mjs''"
      then show ?thesis using x unfolding strip_js_ext_cases by blast
    qed
  qed
  show ?thesis
    unfolding argv pi_isInvocation_def using key[of "''pi''" "basename a"] key[of "''tau''" "basename a"]
    by (simp, blast)
qed

text \<open>An invocation through a script with an upper-case extension.\<close>

theorem pi_isInvocation_iff_witness:
  "[''/usr/local/bin/tau.MJS'', ''hello''] \<noteq> [] \<and> pi_isInvocation [''/usr/local/bin/tau.MJS'', ''hello'']"
proof -
  have b: "basename ''/usr/local/bin/tau.MJS'' = ''tau'' @ ''.MJS''"
    by (simp add: basename_def)
  have l: "toLowerCase ''.MJS'' = ''.mjs''"
    by (simp add: toLowerCase_def to_lower_char_def)
  have ex: "\<exists>b e. basename (hd [''/usr/local/bin/tau.MJS'', ''hello'']) = b @ e \<and>
      (b = ''pi'' \<or> b = ''tau'') \<and> (e = [] \<or> toLowerCase e = ''.js'' \<or> toLowerCase e = ''.mjs'')"
    by (rule exI[of _ "''tau''"], rule exI[of _ "''.MJS''"]) (simp add: b l)
  have ne: "[''/usr/local/bin/tau.MJS'', ''hello''] \<noteq> []" by simp
  show ?thesis
    using pi_isInvocation_iff[OF ne] ex ne by blast
qed

text \<open>Claim C8 as stated fails: \<open>pi.js\<close> is matched, and its basename is neither \<open>pi\<close>
  nor \<open>tau\<close>.\<close>

theorem pi_isInvocation_counterexample:
  "pi_isInvocation [''pi.js''] \<and> basename ''pi.js'' \<noteq> ''pi'' \<and> basename ''pi.js'' \<noteq> ''tau''"
  by (simp add: pi_isInvocation_def basename_def strip_js_ext_def toLowerCase_def to_lower_char_def suffix_to_prefix)

section \<open>Session flags\<close>

lemma take_drop_last:
  "xs \<noteq> [] \<Longrightarrow> take (length xs - 1) xs = butlast xs \<and> drop (length xs - 1) xs = [last xs]"
  by (induction xs rule: rev_induct) (simp_all add: butlast_conv_take)

text \<open>
  Claim C6. When \<open>reply.session\<close> is configured without \<open>sessionArgNew\<close> and
  \<open>sessionArgResume\<close>, the session flags are, templated: for claude \<open>--session-id
  {{SessionId}}\<close> on a new session and \<open>--resume {{SessionId}}\<close> on resume; for gemini none
  on a new session and \<open>--resume {{SessionId}}\<close> on resume; for every other kind \<open>--session
  {{SessionId}}\<close>. They are inserted before the last argument when \<open>sessionArgBeforeBody\<close>
  is true or unset and argv has more than one element, and appended otherwise.
\<close>

theorem session_flags_default:
  assumes "session (reply ps) = Some s"
    and "sessionArgNew s = None" and "sessionArgResume s = None"
  shows "injectSessionArgs env ps argv =
     (let tpl = (\<lambda>p. applyTemplate env p (templatingCtx ps));
          flags =
            (case agent_kind (agentCfg (reply ps)) of
               Claude \<Rightarrow>
                 if isNewSession ps then [tpl ''--session-id'', tpl ''{{SessionId}}'']
                 else [tpl ''--resume'', tpl ''{{SessionId}}'']
             | Gemini \<Rightarrow> if isNewSession ps then [] else [tpl ''--resume'', tpl ''{{SessionId}}'']
             | _ \<Rightarrow> [tpl ''--session'', tpl ''{{SessionId}}''])
      in if sessionArgBeforeBody s \<noteq> Some False \<and> length argv > 1
         then butlast argv @ flags @ [last argv]
         else argv @ flags)"
proof -
  have ne: "length argv > 1 \<Longrightarrow> argv \<noteq> []" by auto
  show ?thesis
    using assms take_drop_last[of argv] ne
    by (cases "agent_kind (agentCfg (reply ps))"; cases "isNewSession ps";
        cases "sessionArgBeforeBody s")
       (auto simp: injectSessionArgs_def sessionArgList_def Let_def)
qed

text \<open>A new claude session with the id \<open>abc\<close>.\<close>

theorem session_flags_default_witness:
  "session (reply ex_claude_params) =
     Some \<lparr>sessionArgNew = None, sessionArgResume = None, sessionArgBeforeBody = None\<rparr> \<and>
   injectSessionArgs (ex_env (ex_result ''ok'')) ex_claude_params [''claude'', ''-p'', ''hello''] =
     [''claude'', ''-p'', ''--session-id'', ''abc'', ''hello'']"
proof -
  have s: "session (reply ex_claude_params) =
     Some \<lparr>sessionArgNew = None, sessionArgResume = None, sessionArgBeforeBody = None\<rparr>"
    by (simp add: ex_claude_params_def ex_reply_def)
  have k: "agent_kind (agentCfg (reply ex_claude_params)) = Claude" "isNewSession ex_claude_params"
    "templatingCtx ex_claude_params = ex_ctx"
    by (simp_all add: ex_claude_params_def ex_reply_def ex_params_def agentCfg_def)
  have t: "applyTemplate (ex_env (ex_result ''ok'')) ''--session-id'' ex_ctx = ''--session-id''"
    "applyTemplate (ex_env (ex_result ''ok'')) ''{{SessionId}}'' ex_ctx = ''abc''"
    by (simp_all add: ex_env_def ex_template_def ex_ctx_def)
  show ?thesis
    using session_flags_default[OF s, of "ex_env (ex_result ''ok'')" "[''claude'', ''-p'', ''hello'']"] s k t
    by simp
qed

lemma hasThinkingFlag_iff:
  "hasThinkingFlag argv \<longleftrightarrow> (\<exists>a\<in>set argv. a = ''--thinking'' \<or> startsWith a ''--thinking='')"
proof
  assume "hasThinkingFlag argv"
  then obtain i where i: "i < length argv"
    and h: "argv ! i = ''--thinking'' \<or> (i > 0 \<and> argv ! (i - 1) = ''--thinking'') \<or>
            startsWith (argv ! i) ''--thinking=''"
    by (auto simp: hasThinkingFlag_def list_ex_iff)
  from h show "\<exists>a\<in>set argv. a = ''--thinking'' \<or> startsWith a ''--thinking=''"
  proof (elim disjE conjE)
    assume "argv ! i = ''--thinking''" then show ?thesis using i nth_mem by metis
  next
    assume "i > 0" "argv ! (i - 1) = ''--thinking''"
    moreover have "i - 1 < length argv" using i by simp
    ultimately show ?thesis using nth_mem by metis
  next
    assume "startsWith (argv ! i) ''--thinking=''" then show ?thesis using i nth_mem by metis
  qed
next
  assume "\<exists>a\<in>set argv. a = ''--thinking'' \<or> startsWith a ''--thinking=''"
  then obtain i where "i < length argv" "argv ! i = ''--thinking'' \<or> startsWith (argv ! i) ''--thinking=''"
    by (auto simp: in_set_conv_nth)
  then show "hasThinkingFlag argv"
    by (auto simp: hasThinkingFlag_def list_ex_iff)
qed

section \<open>Failure paths of runCommandReply\<close>

lemma includes_mid: "includes_str (a @ x @ b) x"
  by (simp add: includes_str_def)

lemma runCommandReply_rejected:
  "command (reply ps) = Some (c # cs) \<Longrightarrow> enqueue env (requestOf env ps (c # cs)) = (q, Rejected e)
   \<Longrightarrow> runCommandReply env ps = Inr (handleRejected env ps q e)"
  by (simp add: runCommandReply_def)

lemma runCommandReply_resolved:
  "command (reply ps) = Some (c # cs) \<Longrightarrow> enqueue env (requestOf env ps (c # cs)) = (q, Resolved r)
   \<Longrightarrow> runCommandReply env ps = Inr (handleResolved env ps q r)"
  by (simp add: runCommandReply_def)

lemma timeoutBaseMsg_includes:
  "includes_str (timeoutBaseMsg ps @ rest) ''timed out''"
  "includes_str (timeoutBaseMsg ps @ rest) (show_nat (timeoutSeconds ps) @ ''s'')"
proof -
  have "timeoutBaseMsg ps @ rest = ''Command '' @ ''timed out'' @ ('' after '' @ show_nat (timeoutSeconds ps) @ ''s'' @
     (case cwd (reply ps) of Some c \<Rightarrow> if c \<noteq> [] then '' (cwd: '' @ c @ '')'' else [] | None \<Rightarrow> []) @
     ''. Try a shorter prompt or split the request.'' @ rest)"
    by (simp add: timeoutBaseMsg_def)
  then show "includes_str (timeoutBaseMsg ps @ rest) ''timed out''"
    by (simp only: includes_mid)
  have "timeoutBaseMsg ps @ rest = ''Command timed out after '' @ (show_nat (timeoutSeconds ps) @ ''s'') @
     ((case cwd (reply ps) of Some c \<Rightarrow> if c \<noteq> [] then '' (cwd: '' @ c @ '')'' else [] | None \<Rightarrow> []) @
     ''. Try a shorter prompt or split the request.'' @ rest)"
    by (simp add: timeoutBaseMsg_def)
  then show "includes_str (timeoutBaseMsg ps @ rest) (show_nat (timeoutSeconds ps) @ ''s'')"
    by (simp only: includes_mid)
qed

lemma timeoutText_includes:
  "includes_str (timeoutText ps e) ''timed out''"
  "includes_str (timeoutText ps e) (show_nat (timeoutSeconds ps) @ ''s'')"
  using timeoutBaseMsg_includes[of ps "[]"] timeoutBaseMsg_includes[of ps "[CHR 0x0A, CHR 0x0A] @ ''Partial output before timeout:'' @ [CHR 0x0A] @
        partialSnippet (err_stdout e)"]
  by (auto simp: timeoutText_def)

lemma timeoutText_partial:
  assumes "err_stdout e = Some out" "trim out \<noteq> []"
  shows "\<exists>pre. timeoutText ps e =
     pre @ take 800 (trim out) @ (if length (trim out) > 800 then ''...'' else [])"
proof -
  have ne: "partialSnippet (err_stdout e) \<noteq> []" using assms by (auto simp: partialSnippet_def)
  have "partialSnippet (err_stdout e) = take 800 (trim out) @ (if length (trim out) > 800 then ''...'' else [])"
    using assms by (simp add: partialSnippet_def)
  then have "timeoutText ps e = (timeoutBaseMsg ps @ [CHR 0x0A, CHR 0x0A] @ ''Partial output before timeout:'' @ [CHR 0x0A]) @
     take 800 (trim out) @ (if length (trim out) > 800 then ''...'' else [])"
    using ne by (simp add: timeoutText_def)
  then show ?thesis by blast
qed

text \<open>
  Claim C3. When the run handed to the queue fails and the error is marked killed or has
  the signal SIGKILL, \<open>runCommandReply\<close> returns one payload, with a text only, that
  contains \<open>timed out\<close> and the configured timeout in seconds, and, when the trimmed
  partial output is not empty, ends with its first 800 characters, followed by an ellipsis
  when it is longer.
\<close>

theorem timeout_payload:
  assumes "command (reply ps) = Some (c # cs)"
    and "enqueue env (requestOf env ps (c # cs)) = (q, Rejected e)"
    and "err_killed e = Some True \<or> err_signal e = Some ''SIGKILL''"
  shows "\<exists>res t. runCommandReply env ps = Inr res \<and>
     payloads res = [\<lparr>p_text = Some t, p_mediaUrl = None, p_mediaUrls = None\<rparr>] \<and>
     includes_str t ''timed out'' \<and>
     includes_str t (show_nat (timeoutSeconds ps) @ ''s'') \<and>
     (\<forall>out. err_stdout e = Some out \<and> trim out \<noteq> [] \<longrightarrow>
        (\<exists>pre. t = pre @ take 800 (trim out) @ (if length (trim out) > 800 then ''...'' else [])))"
proof -
  have r: "runCommandReply env ps = Inr (handleRejected env ps q e)"
    using assms(1,2) by (rule runCommandReply_rejected)
  have p: "payloads (handleRejected env ps q e) =
      [\<lparr>p_text = Some (timeoutText ps e), p_mediaUrl = None, p_mediaUrls = None\<rparr>]"
    using assms(3) by (auto simp: handleRejected_def textPayload_def)
  show ?thesis
    using r p timeoutText_includes[of ps e] timeoutText_partial[of e _ ps] by blast
qed

lemma ex_env_enqueue: "enqueue (ex_env out) req = (None, out)"
  by (simp add: ex_env_def)

lemma ex_params_command: "command (reply ex_params) = Some (''pi'' # [''{{Body}}''])"
  by (simp add: ex_params_def ex_reply_def)

lemma show_nat_100: "show_nat 100 = ''100''"
  by code_simp

lemma trim_partial: "trim ''partial answer'' = ''partial answer''"
  by (simp add: trim_def is_ws_def)

text \<open>Scenario S5: the output \<open>partial answer\<close>, then the timeout of 100 seconds.\<close>

theorem timeout_payload_witness:
  "\<exists>res t. runCommandReply (ex_env ex_timeout) ex_params = Inr res \<and>
     payloads res = [\<lparr>p_text = Some t, p_mediaUrl = None, p_mediaUrls = None\<rparr>] \<and>
     includes_str t ''timed out'' \<and> includes_str t ''100s'' \<and>
     (\<exists>pre. t = pre @ ''partial answer'')"
proof -
  define e where "e = \<lparr>err_killed = Some True, err_signal = Some ''SIGKILL'',
               err_stdout = Some ''partial answer'', err_stderr = None,
               err_message = ''Command failed''\<rparr>"
  have out: "ex_timeout = Rejected e" by (simp add: ex_timeout_def e_def)
  have enq: "enqueue (ex_env ex_timeout) (requestOf (ex_env ex_timeout) ex_params (''pi'' # [''{{Body}}''])) =
      (None, Rejected e)"
    by (simp add: ex_env_enqueue out)
  have k: "err_killed e = Some True \<or> err_signal e = Some ''SIGKILL''" by (simp add: e_def)
  have so: "err_stdout e = Some ''partial answer''" by (simp add: e_def)
  have secs: "timeoutSeconds ex_params = 100" by (simp add: ex_params_def)
  from timeout_payload[OF ex_params_command enq k]
  obtain res t where r: "runCommandReply (ex_env ex_timeout) ex_params = Inr res"
    and p: "payloads res = [\<lparr>p_text = Some t, p_mediaUrl = None, p_mediaUrls = None\<rparr>]"
    and i1: "includes_str t ''timed out''"
    and i2: "includes_str t (show_nat (timeoutSeconds ex_params) @ ''s'')"
    and i3: "\<forall>out. err_stdout e = Some out \<and> trim out \<noteq> [] \<longrightarrow>
        (\<exists>pre. t = pre @ take 800 (trim out) @ (if length (trim out) > 800 then ''...'' else []))"
    by blast
  from i2 have i2': "includes_str t ''100s''" by (simp add: secs show_nat_100)
  from i3 so have "\<exists>pre. t = pre @ take 800 (trim ''partial answer'') @
      (if length (trim ''partial answer'') > 800 then ''...'' else [])"
    by (simp add: trim_partial)
  then have i3': "\<exists>pre. t = pre @ ''partial answer''" by (simp add: trim_partial)
  show ?thesis using r p i1 i2' i3' by blast
qed







section \<open>The media cap of runCommandReply\<close>

lemma filterMedia_filter:
  "filterMedia env maxBytes filtered urls = filtered @ filter (keepMedia env maxBytes) urls"
  by (induction urls arbitrary: filtered) (auto simp: keepMedia_def split: option.splits)

lemma keepMedia_http: "is_http_url u \<Longrightarrow> keepMedia env maxBytes u"
  by (simp add: keepMedia_def)

lemma filterMedia_http:
  "filter is_http_url (filterMedia env maxBytes [] urls) = filter is_http_url urls"
proof -
  have "filter (\<lambda>x. keepMedia env maxBytes x \<and> is_http_url x) urls = filter is_http_url urls"
    by (rule filter_cong) (auto simp: keepMedia_http)
  then show ?thesis by (simp add: filterMedia_filter)
qed

text \<open>
  Claim C10. Under the media cap a local path whose size cannot be determined, because
  \<open>fs.stat\<close> fails, is kept, also in the payload built from the item; a path is removed only
  when it is local and its measured size is above the cap.
\<close>

theorem unmeasured_media_kept:
  "(\<forall>u\<in>set urls. \<not> is_http_url u \<and> stat_size env (absPath env u) = None \<longrightarrow>
      u \<in> set (filterMedia env maxBytes [] urls)) \<and>
   (\<forall>u\<in>set urls. u \<notin> set (filterMedia env maxBytes [] urls) \<longrightarrow>
      \<not> is_http_url u \<and> (\<exists>sz. stat_size env (absPath env u) = Some sz \<and> maxBytes < of_nat sz)) \<and>
   (\<forall>cand M u. item_media item = Some cand \<and> mediaMaxMb r = Some M \<and> M \<noteq> 0 \<and>
      u \<in> set cand \<and> \<not> is_http_url u \<and> stat_size env (absPath env u) = None \<longrightarrow>
      (\<exists>p us. buildPayload env r item = Some p \<and> p_mediaUrls p = Some us \<and> u \<in> set us))"
proof -
  have a: "\<forall>u\<in>set urls. \<not> is_http_url u \<and> stat_size env (absPath env u) = None \<longrightarrow>
      u \<in> set (filterMedia env maxBytes [] urls)"
    by (simp add: filterMedia_filter keepMedia_def)
  have b: "\<forall>u\<in>set urls. u \<notin> set (filterMedia env maxBytes [] urls) \<longrightarrow>
      \<not> is_http_url u \<and> (\<exists>sz. stat_size env (absPath env u) = Some sz \<and> maxBytes < of_nat sz)"
    by (auto simp: filterMedia_filter keepMedia_def split: option.splits)
  have c: "\<exists>p us. buildPayload env r item = Some p \<and> p_mediaUrls p = Some us \<and> u \<in> set us"
    if h: "item_media item = Some cand \<and> mediaMaxMb r = Some M \<and> M \<noteq> 0 \<and>
      u \<in> set cand \<and> \<not> is_http_url u \<and> stat_size env (absPath env u) = None" for cand M u
  proof -
    from h obtain x xs where cand: "cand = x # xs" by (cases cand) auto
    have k: "u \<in> set (filterMedia env (M * 1024 * 1024) [] cand)"
      using h by (simp add: filterMedia_filter keepMedia_def)
    have m: "itemMediaUrls env r item = Some (filterMedia env (M * 1024 * 1024) [] cand)"
      using h cand by (simp add: itemMediaUrls_def candidateMedia_def)
    show ?thesis
      using m k by (cases "filterMedia env (M * 1024 * 1024) [] cand") (auto simp: buildPayload_def)
  qed
  show ?thesis using a b c by blast
qed

text \<open>A file of 2048 bytes and a missing file under a cap of 1024 bytes: the missing one
  stays.\<close>

theorem unmeasured_media_kept_witness:
  "''/tmp/missing.png'' \<in> set [''/tmp/cat.png'', ''/tmp/missing.png''] \<and>
   \<not> is_http_url ''/tmp/missing.png'' \<and>
   stat_size (ex_env (ex_result ''ok'')) (absPath (ex_env (ex_result ''ok'')) ''/tmp/missing.png'') = None \<and>
   ''/tmp/missing.png'' \<in> set (filterMedia (ex_env (ex_result ''ok'')) 1024 [] [''/tmp/cat.png'', ''/tmp/missing.png''])"
proof -
  have h: "\<not> is_http_url ''/tmp/missing.png''"
    by (simp add: is_http_url_def startsWith_def toLowerCase_def to_lower_char_def)
  have s: "stat_size (ex_env (ex_result ''ok'')) (absPath (ex_env (ex_result ''ok'')) ''/tmp/missing.png'') = None"
    by (simp add: ex_env_def absPath_def isAbsolute_def startsWith_def)
  have m: "''/tmp/missing.png'' \<in> set [''/tmp/cat.png'', ''/tmp/missing.png'']" by simp
  show ?thesis
    using unmeasured_media_kept[of "[''/tmp/cat.png'', ''/tmp/missing.png'']" "ex_env (ex_result ''ok'')" 1024] h s m
    by blast
qed

lemma buildPayload_media:
  assumes "buildPayload env r item = Some p" "mediaMaxMb r = Some M" "M \<noteq> 0"
    and "p_mediaUrls p = Some us" "u \<in> set us"
  shows "keepMedia env (M * 1024 * 1024) u"
proof -
  have m: "itemMediaUrls env r item = Some us"
    using assms(1,4) by (auto simp: buildPayload_def Let_def split: if_splits)
  show ?thesis
  proof (cases "candidateMedia r item")
    case None
    then show ?thesis using m by (simp add: itemMediaUrls_def)
  next
    case (Some cand)
    then show ?thesis using m assms(2,3,5)
      by (cases cand) (auto simp: itemMediaUrls_def filterMedia_filter split: if_splits)
  qed
qed

lemma buildPayload_mediaUrl:
  assumes "buildPayload env r item = Some p" "p_mediaUrl p = Some u"
  shows "\<exists>us. p_mediaUrls p = Some us \<and> u \<in> set us"
  using assms
  by (auto simp: buildPayload_def Let_def split: if_splits option.splits list.splits)

lemma textPayload_media: "p_mediaUrls (textPayload t) = None" "p_mediaUrl (textPayload t) = None"
  by (simp_all add: textPayload_def)

lemma runCommandReply_payloads:
  assumes "runCommandReply env ps = Inr res" "p \<in> set (payloads res)"
  shows "(p_mediaUrls p = None \<and> p_mediaUrl p = None) \<or>
         (\<exists>item. buildPayload env (reply ps) item = Some p)"
proof -
  from assms(1) obtain c cs where cmd: "command (reply ps) = Some (c # cs)"
    by (auto simp: runCommandReply_def split: option.splits list.splits)
  obtain q out where enq: "enqueue env (requestOf env ps (c # cs)) = (q, out)"
    by (cases "enqueue env (requestOf env ps (c # cs))")
  show ?thesis
  proof (cases out)
    case (Rejected e)
    then have "res = handleRejected env ps q e"
      using assms(1) cmd enq by (simp add: runCommandReply_def)
    then show ?thesis using assms(2)
      by (auto simp: handleRejected_def Let_def textPayload_media split: if_splits)
  next
    case (Resolved r)
    then have "res = handleResolved env ps q r"
      using assms(1) cmd enq by (simp add: runCommandReply_def)
    then show ?thesis using assms(2)
      by (auto simp: handleResolved_def Let_def textPayload_media
          simp: in_set_map_filter split: if_splits)
  next
    case RejectedNullish
    then show ?thesis using assms(1) cmd enq by (simp add: runCommandReply_def)
  qed
qed

text \<open>
  Claim C5, as amended. When \<open>reply.mediaMaxMb = M\<close> is set, every local path emitted in a
  payload, in \<open>mediaUrls\<close> or as \<open>mediaUrl\<close>, either could not be measured or refers to a
  file of at most \<open>M * 1024 * 1024\<close> bytes, and the http(s) URLs among the media of an item
  are all kept, in their order.
\<close>

theorem media_cap:
  assumes "mediaMaxMb (reply ps) = Some M" and "M \<noteq> 0"
  shows "(\<forall>res p us u. runCommandReply env ps = Inr res \<and> p \<in> set (payloads res) \<and>
            p_mediaUrls p = Some us \<and> u \<in> set us \<longrightarrow>
            is_http_url u \<or>
            (case stat_size env (absPath env u) of
               None \<Rightarrow> True
             | Some sz \<Rightarrow> of_nat sz \<le> M * 1024 * 1024)) \<and>
         (\<forall>res p u. runCommandReply env ps = Inr res \<and> p \<in> set (payloads res) \<and>
            p_mediaUrl p = Some u \<longrightarrow>
            is_http_url u \<or>
            (case stat_size env (absPath env u) of
               None \<Rightarrow> True
             | Some sz \<Rightarrow> of_nat sz \<le> M * 1024 * 1024)) \<and>
         (\<forall>item c cs. candidateMedia (reply ps) item = Some (c # cs) \<longrightarrow>
            (\<exists>us. itemMediaUrls env (reply ps) item = Some us \<and>
                  filter is_http_url us = filter is_http_url (c # cs)))"
proof -
  have a: "is_http_url u \<or>
            (case stat_size env (absPath env u) of
               None \<Rightarrow> True
             | Some sz \<Rightarrow> of_nat sz \<le> M * 1024 * 1024)"
    if h: "runCommandReply env ps = Inr res" "p \<in> set (payloads res)"
      "p_mediaUrls p = Some us" "u \<in> set us" for res p us u
  proof -
    from runCommandReply_payloads[OF h(1,2)] h(3)
    obtain item where "buildPayload env (reply ps) item = Some p" by auto
    from buildPayload_media[OF this assms h(3,4)] show ?thesis
      unfolding keepMedia_def .
  qed
  have b: "is_http_url u \<or>
            (case stat_size env (absPath env u) of
               None \<Rightarrow> True
             | Some sz \<Rightarrow> of_nat sz \<le> M * 1024 * 1024)"
    if h: "runCommandReply env ps = Inr res" "p \<in> set (payloads res)" "p_mediaUrl p = Some u"
    for res p u
  proof -
    from runCommandReply_payloads[OF h(1,2)] h(3)
    obtain item where i: "buildPayload env (reply ps) item = Some p" by auto
    from buildPayload_mediaUrl[OF i h(3)] obtain us where "p_mediaUrls p = Some us" "u \<in> set us"
      by blast
    then show ?thesis using a h(1,2) by blast
  qed
  have c: "\<exists>us. itemMediaUrls env (reply ps) item = Some us \<and>
                  filter is_http_url us = filter is_http_url (c # cs)"
    if "candidateMedia (reply ps) item = Some (c # cs)" for item c cs
    using that assms filterMedia_http[of env "M * 1024 * 1024" "c # cs"]
    by (simp add: itemMediaUrls_def)
  show ?thesis using a b c by blast
qed

lemma ex_parse_stream:
  "parsePiJson ex_parse (trim ex_stream) =
     \<lparr>texts = [''hi''], toolResults = Some [''ls''],
      meta = Some \<lparr>model = Some (JStr ''m1''), provider = None, stopReason = None,
                   usage = None, extra_summary = None\<rparr>\<rparr>"
  by code_simp

lemma ex_trim_nonempty: "trim ex_stream \<noteq> []"
  by code_simp

lemma ex_parse_hello: "parsePiJson ex_parse ''hello'' = \<lparr>texts = [], toolResults = None, meta = None\<rparr>"
  by code_simp

lemma trim_simple: "trim ''hello'' = ''hello''" "trim ''hi'' = ''hi''"
  by (simp_all add: trim_def is_ws_def)

lemma ex_local_paths:
  "\<not> is_http_url ''/tmp/missing.png''" "\<not> is_http_url ''/tmp/cat.png''"
  "absPath (ex_env out) ''/tmp/missing.png'' = ''/tmp/missing.png''"
  "absPath (ex_env out) ''/tmp/cat.png'' = ''/tmp/cat.png''"
  "stat_size (ex_env out) ''/tmp/missing.png'' = None"
  "stat_size (ex_env out) ''/tmp/cat.png'' = Some 2048"
  by (simp_all add: is_http_url_def startsWith_def toLowerCase_def to_lower_char_def
      absPath_def isAbsolute_def ex_env_def)

lemma ex_handle_stream:
  assumes "reply ps = ex_reply\<lparr>mediaUrl := Some u, mediaMaxMb := Some 1\<rparr>"
    and "verboseLevel ps = None"
    and "\<not> is_http_url u" and "u \<noteq> []"
    and "stat_size (ex_env out) (absPath (ex_env out) u) = None \<or>
         stat_size (ex_env out) (absPath (ex_env out) u) = Some 2048"
  shows "handleResolved (ex_env out) ps None
           \<lparr>stdout = ex_stream, stderr = None, code = Some 0, signal = None, killed = False\<rparr> =
     \<lparr>payloads = [\<lparr>p_text = Some ''hi'', p_mediaUrl = Some u, p_mediaUrls = Some [u]\<rparr>],
      reply_meta =
        \<lparr>durationMs = 5, queuedMs = None, queuedAhead = None, exitCode = Some 0,
         meta_signal = None, meta_killed = Some False,
         agentMeta = Some \<lparr>model = Some (JStr ''m1''), provider = None, stopReason = None,
                           usage = None, extra_summary = None\<rparr>\<rparr>\<rparr>"
proof -
  have spec: "parseOutput (getAgentSpec (ex_env out) k) t = Some (parsePiJson ex_parse t)" for k t
    by (simp add: ex_env_def piSpec_def)
  have split: "splitMediaFromOutput (ex_env out) t = (t, None)" for t
    by (simp add: ex_env_def)
  have el: "elapsedMs (ex_env out) = 5" by (simp add: ex_env_def)
  have items: "replyItems (ex_env out) None (trim ex_stream) (Some (parsePiJson ex_parse (trim ex_stream))) =
      [\<lparr>item_text = ''hi'', item_media = None\<rparr>]"
    by (simp add: replyItems_def ex_parse_stream trim_simple mkItem_def split)
  have media: "itemMediaUrls (ex_env out) (reply ps) \<lparr>item_text = ''hi'', item_media = None\<rparr> = Some [u]"
    using assms(1,3,4,5) by (auto simp: itemMediaUrls_def candidateMedia_def ex_reply_def)
  have pay: "buildPayload (ex_env out) (reply ps) \<lparr>item_text = ''hi'', item_media = None\<rparr> =
      Some \<lparr>p_text = Some ''hi'', p_mediaUrl = Some u, p_mediaUrls = Some [u]\<rparr>"
    by (simp add: buildPayload_def media)
  show ?thesis
    using ex_trim_nonempty
    by (simp add: handleResolved_def Let_def spec el items[unfolded ex_parse_stream] pay assms(2)
        ex_parse_stream)
qed

lemma ex_params_commands:
  "command (reply ex_params) = Some (''pi'' # [''{{Body}}''])"
  "command (reply ex_missing_params) = Some (''pi'' # [''{{Body}}''])"
  "command (reply ex_cat_params) = Some (''pi'' # [''{{Body}}''])"
  by (simp_all add: ex_params_def ex_missing_params_def ex_cat_params_def ex_reply_def)

lemma ex_run_resolved:
  assumes "command (reply ps) = Some (c # cs)"
  shows "runCommandReply (ex_env (Resolved r)) ps = Inr (handleResolved (ex_env (Resolved r)) ps None r)"
  using assms by (simp add: runCommandReply_def ex_env_def)

text \<open>The file of 2048 bytes is attached under the cap of 1 MB.\<close>

theorem media_cap_witness:
  "mediaMaxMb (reply ex_cat_params) = Some 1 \<and>
   runCommandReply (ex_env (ex_result ex_stream)) ex_cat_params =
     Inr \<lparr>payloads = [\<lparr>p_text = Some ''hi'', p_mediaUrl = Some ''/tmp/cat.png'',
                        p_mediaUrls = Some [''/tmp/cat.png'']\<rparr>],
          reply_meta =
            \<lparr>durationMs = 5, queuedMs = None, queuedAhead = None, exitCode = Some 0,
             meta_signal = None, meta_killed = Some False,
             agentMeta = Some \<lparr>model = Some (JStr ''m1''), provider = None, stopReason = None,
                               usage = None, extra_summary = None\<rparr>\<rparr>\<rparr> \<and>
   stat_size (ex_env (ex_result ex_stream)) (absPath (ex_env (ex_result ex_stream)) ''/tmp/cat.png'') =
     Some 2048 \<and>
   (of_nat 2048 :: rat) \<le> 1 * 1024 * 1024"
proof -
  let ?env = "ex_env (ex_result ex_stream)"
  let ?p = "\<lparr>p_text = Some ''hi'', p_mediaUrl = Some ''/tmp/cat.png'',
             p_mediaUrls = Some [''/tmp/cat.png'']\<rparr>"
  have m: "mediaMaxMb (reply ex_cat_params) = Some 1" and nz: "(1::rat) \<noteq> 0"
    by (simp_all add: ex_cat_params_def)
  have st: "stat_size ?env (absPath ?env ''/tmp/cat.png'') = Some 2048"
    by (simp add: ex_local_paths)
  have run: "runCommandReply ?env ex_cat_params =
     Inr \<lparr>payloads = [?p],
          reply_meta =
            \<lparr>durationMs = 5, queuedMs = None, queuedAhead = None, exitCode = Some 0,
             meta_signal = None, meta_killed = Some False,
             agentMeta = Some \<lparr>model = Some (JStr ''m1''), provider = None, stopReason = None,
                               usage = None, extra_summary = None\<rparr>\<rparr>\<rparr>"
    unfolding ex_result_def ex_run_resolved[OF ex_params_commands(3)]
    by (subst ex_handle_stream[where u = "''/tmp/cat.png''"])
       (simp_all add: ex_cat_params_def ex_params_def ex_local_paths)
  from media_cap[OF m nz, of ?env]
  have "\<forall>res p us u. runCommandReply ?env ex_cat_params = Inr res \<and> p \<in> set (payloads res) \<and>
            p_mediaUrls p = Some us \<and> u \<in> set us \<longrightarrow>
            is_http_url u \<or>
            (case stat_size ?env (absPath ?env u) of
               None \<Rightarrow> True
             | Some sz \<Rightarrow> of_nat sz \<le> (1::rat) * 1024 * 1024)" by blast
  from this[rule_format, of _ ?p "[''/tmp/cat.png'']" "''/tmp/cat.png''"] run
  have "is_http_url ''/tmp/cat.png'' \<or>
            (case stat_size ?env (absPath ?env ''/tmp/cat.png'') of
               None \<Rightarrow> True
             | Some sz \<Rightarrow> of_nat sz \<le> (1::rat) * 1024 * 1024)" by simp
  then have "(of_nat 2048 :: rat) \<le> 1 * 1024 * 1024"
    unfolding st using ex_local_paths(2) by simp
  then show ?thesis using m run st by blast
qed

text \<open>Claim C5 as stated fails: the path of a file that cannot be measured is emitted, so
  it refers to no file whose size is known to be within the cap.\<close>

theorem media_cap_counterexample:
  "runCommandReply (ex_env (ex_result ex_stream)) ex_missing_params =
     Inr \<lparr>payloads = [\<lparr>p_text = Some ''hi'', p_mediaUrl = Some ''/tmp/missing.png'',
                        p_mediaUrls = Some [''/tmp/missing.png'']\<rparr>],
          reply_meta =
            \<lparr>durationMs = 5, queuedMs = None, queuedAhead = None, exitCode = Some 0,
             meta_signal = None, meta_killed = Some False,
             agentMeta = Some \<lparr>model = Some (JStr ''m1''), provider = None, stopReason = None,
                               usage = None, extra_summary = None\<rparr>\<rparr>\<rparr> \<and>
   mediaMaxMb (reply ex_missing_params) = Some 1 \<and>
   \<not> is_http_url ''/tmp/missing.png'' \<and>
   stat_size (ex_env (ex_result ex_stream))
     (absPath (ex_env (ex_result ex_stream)) ''/tmp/missing.png'') = None"
proof -
  let ?env = "ex_env (ex_result ex_stream)"
  have run: "runCommandReply ?env ex_missing_params =
     Inr \<lparr>payloads = [\<lparr>p_text = Some ''hi'', p_mediaUrl = Some ''/tmp/missing.png'',
                        p_mediaUrls = Some [''/tmp/missing.png'']\<rparr>],
          reply_meta =
            \<lparr>durationMs = 5, queuedMs = None, queuedAhead = None, exitCode = Some 0,
             meta_signal = None, meta_killed = Some False,
             agentMeta = Some \<lparr>model = Some (JStr ''m1''), provider = None, stopReason = None,
                               usage = None, extra_summary = None\<rparr>\<rparr>\<rparr>"
    unfolding ex_result_def ex_run_resolved[OF ex_params_commands(2)]
    by (subst ex_handle_stream[where u = "''/tmp/missing.png''"])
       (simp_all add: ex_missing_params_def ex_params_def ex_local_paths)
  show ?thesis
    using run by (simp add: ex_local_paths ex_missing_params_def)
qed

section \<open>The reply when the parser yields nothing\<close>

lemma buildPayload_text:
  "t \<noteq> [] \<Longrightarrow>
   map p_text (List.map_filter (buildPayload env r) [\<lparr>item_text = t, item_media = m\<rparr>]) = [Some t]"
  by (simp add: buildPayload_def Let_def List.map_filter_simps)

lemma noOutputNotice_nonempty: "noOutputNotice parsed \<noteq> []"
  by (simp add: noOutputNotice_def)

lemma replyItems_empty_stdout:
  "replyItems env v [] None = [\<lparr>item_text = ''(command produced no output)'', item_media = None\<rparr>]"
  by (simp add: replyItems_def noOutputNotice_def)

lemma replyItems_parser_nothing:
  assumes "\<forall>t\<in>set (texts pr). trim t = []"
    and "v = Some VerboseOn \<longrightarrow> (\<forall>trs. toolResults pr = Some trs \<longrightarrow> (\<forall>t\<in>set trs. trim t = []))"
  shows "replyItems env v trimmed (Some pr) =
           [\<lparr>item_text = noOutputNotice (Some pr), item_media = None\<rparr>]"
proof -
  have a: "filter (\<lambda>t. t \<noteq> []) (map trim (texts pr)) = []"
    using assms(1) by (simp add: filter_empty_conv)
  show ?thesis
    using assms(2) a
    by (cases "toolResults pr") (auto simp: replyItems_def Let_def filter_empty_conv)
qed

lemma replyItems_raw:
  assumes "trimmed \<noteq> []" "splitMediaFromOutput env trimmed = (cleaned, media)" "cleaned \<noteq> []"
  shows "\<exists>m. replyItems env v trimmed None = [\<lparr>item_text = cleaned, item_media = m\<rparr>]"
  using assms by (simp add: replyItems_def mkItem_def)

text \<open>
  Claim C1, as amended. For a run that resolved with exit code zero and was not killed
  without a signal: when the trimmed output is empty the one payload is the notice
  \<open>(command produced no output)\<close>; when the parser returned a result whose texts, and tool
  results under verbose, are all empty, the one payload is that notice too, with the
  summary of the metadata if there is one, although the output is not empty; the raw
  trimmed output is used, through the media splitter, only when the parser returned no
  result.
\<close>

theorem no_output_fallback:
  assumes "command (reply ps) = Some (c # cs)"
    and "enqueue env (requestOf env ps (c # cs)) = (q, Resolved r)"
    and "code r = None \<or> code r = Some 0"
    and "killed r \<longrightarrow> (\<exists>s. signal r = Some s \<and> s \<noteq> [])"
  shows "\<exists>res. runCommandReply env ps = Inr res \<and>
     (trim (stdout r) = [] \<longrightarrow>
        map p_text (payloads res) = [Some ''(command produced no output)'']) \<and>
     (\<forall>pr. trim (stdout r) \<noteq> [] \<and>
        parseOutput (getAgentSpec env (agent_kind (agentCfg (reply ps)))) (trim (stdout r)) = Some pr \<and>
        (\<forall>t\<in>set (texts pr). trim t = []) \<and>
        (verboseLevel ps = Some VerboseOn \<longrightarrow>
           (\<forall>trs. toolResults pr = Some trs \<longrightarrow> (\<forall>t\<in>set trs. trim t = []))) \<longrightarrow>
        map p_text (payloads res) =
          [Some (''(command produced no output'' @
                 (case meta pr of
                    None \<Rightarrow> []
                  | Some m \<Rightarrow>
                      (case extra_summary m of
                         None \<Rightarrow> []
                       | Some s \<Rightarrow> if s = [] then [] else ''; '' @ s)) @ '')'')]) \<and>
     (\<forall>cleaned media. trim (stdout r) \<noteq> [] \<and>
        parseOutput (getAgentSpec env (agent_kind (agentCfg (reply ps)))) (trim (stdout r)) = None \<and>
        splitMediaFromOutput env (trim (stdout r)) = (cleaned, media) \<and> cleaned \<noteq> [] \<longrightarrow>
        map p_text (payloads res) = [Some cleaned])"
proof -
  let ?spec = "getAgentSpec env (agent_kind (agentCfg (reply ps)))"
  let ?t = "trim (stdout r)"
  let ?parsed = "if ?t \<noteq> [] then parseOutput ?spec ?t else None"
  have run: "runCommandReply env ps = Inr (handleResolved env ps q r)"
    using assms(1,2) by (simp add: runCommandReply_def)
  have pl: "payloads (handleResolved env ps q r) =
      List.map_filter (buildPayload env (reply ps)) (replyItems env (verboseLevel ps) ?t ?parsed)"
    using assms(3,4) by (auto simp: handleResolved_def Let_def)
  have a: "map p_text (payloads (handleResolved env ps q r)) = [Some ''(command produced no output)'']"
    if "?t = []"
  proof -
    have ne: "''(command produced no output)'' \<noteq> []" by simp
    have "replyItems env (verboseLevel ps) ?t ?parsed =
        [\<lparr>item_text = ''(command produced no output)'', item_media = None\<rparr>]"
      using that by (simp add: replyItems_empty_stdout)
    then show ?thesis by (simp only: pl buildPayload_text[OF ne])
  qed
  have b: "map p_text (payloads (handleResolved env ps q r)) =
          [Some (''(command produced no output'' @
                 (case meta pr of
                    None \<Rightarrow> []
                  | Some m \<Rightarrow>
                      (case extra_summary m of
                         None \<Rightarrow> []
                       | Some s \<Rightarrow> if s = [] then [] else ''; '' @ s)) @ '')'')]"
    if h: "?t \<noteq> [] \<and> parseOutput ?spec ?t = Some pr \<and>
        (\<forall>t\<in>set (texts pr). trim t = []) \<and>
        (verboseLevel ps = Some VerboseOn \<longrightarrow>
           (\<forall>trs. toolResults pr = Some trs \<longrightarrow> (\<forall>t\<in>set trs. trim t = [])))" for pr
  proof -
    have n: "noOutputNotice (Some pr) = ''(command produced no output'' @
                 (case meta pr of
                    None \<Rightarrow> []
                  | Some m \<Rightarrow>
                      (case extra_summary m of
                         None \<Rightarrow> []
                       | Some s \<Rightarrow> if s = [] then [] else ''; '' @ s)) @ '')''"
      by (simp add: noOutputNotice_def split: option.splits)
    have "replyItems env (verboseLevel ps) ?t ?parsed =
        [\<lparr>item_text = noOutputNotice (Some pr), item_media = None\<rparr>]"
      using h replyItems_parser_nothing[of pr "verboseLevel ps" env ?t] by simp
    then have "map p_text (payloads (handleResolved env ps q r)) = [Some (noOutputNotice (Some pr))]"
      by (simp only: pl buildPayload_text[OF noOutputNotice_nonempty])
    then show ?thesis by (simp only: n)
  qed
  have c: "map p_text (payloads (handleResolved env ps q r)) = [Some cleaned]"
    if h: "?t \<noteq> [] \<and> parseOutput ?spec ?t = None \<and>
        splitMediaFromOutput env ?t = (cleaned, media) \<and> cleaned \<noteq> []" for cleaned media
  proof -
    have ne: "cleaned \<noteq> []" using h by blast
    from h replyItems_raw[of ?t env cleaned media "verboseLevel ps"]
    obtain m where "replyItems env (verboseLevel ps) ?t ?parsed = [\<lparr>item_text = cleaned, item_media = m\<rparr>]"
      by auto
    then show ?thesis by (simp only: pl buildPayload_text[OF ne])
  qed
  show ?thesis
    apply (rule exI[of _ "handleResolved env ps q r"])
    apply (intro conjI allI impI)
       apply (rule run)
      apply (erule a)
     apply (erule b)
    apply (erule c)
    done
qed

text \<open>Claim C1 as stated fails: for the output \<open>hello\<close> the pi parser yields no texts,
  and the reply is the notice, not the raw output.\<close>

theorem no_output_fallback_counterexample:
  "runCommandReply (ex_env (ex_result ''hello'')) ex_params =
     Inr \<lparr>payloads = [\<lparr>p_text = Some ''(command produced no output)'', p_mediaUrl = None,
                        p_mediaUrls = None\<rparr>],
          reply_meta =
            \<lparr>durationMs = 5, queuedMs = None, queuedAhead = None, exitCode = Some 0,
             meta_signal = None, meta_killed = Some False, agentMeta = None\<rparr>\<rparr> \<and>
   trim ''hello'' = ''hello'' \<and>
   parseOutput (getAgentSpec (ex_env (ex_result ''hello'')) Pi) ''hello'' =
     Some \<lparr>texts = [], toolResults = None, meta = None\<rparr>"
proof -
  let ?env = "ex_env (ex_result ''hello'')"
  have spec: "parseOutput (getAgentSpec ?env k) t = Some (parsePiJson ex_parse t)" for k t
    by (simp add: ex_env_def piSpec_def)
  have items: "replyItems ?env None ''hello'' (Some \<lparr>texts = [], toolResults = None, meta = None\<rparr>) =
      [\<lparr>item_text = ''(command produced no output)'', item_media = None\<rparr>]"
    by (simp add: replyItems_def noOutputNotice_def)
  have pay: "buildPayload ?env ex_reply \<lparr>item_text = ''(command produced no output)'', item_media = None\<rparr> =
      Some \<lparr>p_text = Some ''(command produced no output)'', p_mediaUrl = None, p_mediaUrls = None\<rparr>"
    by (simp add: buildPayload_def itemMediaUrls_def candidateMedia_def ex_reply_def)
  have "handleResolved ?env ex_params None
           \<lparr>stdout = ''hello'', stderr = None, code = Some 0, signal = None, killed = False\<rparr> =
     \<lparr>payloads = [\<lparr>p_text = Some ''(command produced no output)'', p_mediaUrl = None,
                        p_mediaUrls = None\<rparr>],
          reply_meta =
            \<lparr>durationMs = 5, queuedMs = None, queuedAhead = None, exitCode = Some 0,
             meta_signal = None, meta_killed = Some False, agentMeta = None\<rparr>\<rparr>"
    by (simp add: handleResolved_def Let_def spec trim_simple ex_parse_hello items
        ex_params_def pay) (simp add: ex_env_def)
  then have run: "runCommandReply ?env ex_params =
     Inr \<lparr>payloads = [\<lparr>p_text = Some ''(command produced no output)'', p_mediaUrl = None,
                        p_mediaUrls = None\<rparr>],
          reply_meta =
            \<lparr>durationMs = 5, queuedMs = None, queuedAhead = None, exitCode = Some 0,
             meta_signal = None, meta_killed = Some False, agentMeta = None\<rparr>\<rparr>"
    unfolding ex_result_def ex_run_resolved[OF ex_params_commands(1)] by simp
  have p: "parseOutput (getAgentSpec ?env Pi) ''hello'' =
     Some \<lparr>texts = [], toolResults = None, meta = None\<rparr>"
    by (simp add: spec ex_parse_hello)
  show ?thesis using run p trim_simple(1) by blast
qed

text \<open>The same run, through the theorem.\<close>

theorem no_output_fallback_witness:
  "command (reply ex_params) = Some (''pi'' # [''{{Body}}'']) \<and>
   trim ''hello'' \<noteq> [] \<and>
   (\<exists>res. runCommandReply (ex_env (ex_result ''hello'')) ex_params = Inr res \<and>
      map p_text (payloads res) = [Some ''(command produced no output)''])"
proof -
  let ?env = "ex_env (ex_result ''hello'')"
  define r where "r = \<lparr>stdout = ''hello'', stderr = None, code = Some (0::int), signal = None, killed = False\<rparr>"
  define pr where "pr = \<lparr>texts = [], toolResults = None, meta = None\<rparr>"
  have enq: "enqueue ?env (requestOf ?env ex_params (''pi'' # [''{{Body}}''])) = (None, Resolved r)"
    by (simp add: ex_env_def ex_result_def r_def)
  have cd: "code r = None \<or> code r = Some 0" and kl: "killed r \<longrightarrow> (\<exists>s. signal r = Some s \<and> s \<noteq> [])"
    by (simp_all add: r_def)
  have t: "trim (stdout r) = ''hello''" by (simp add: r_def trim_simple)
  have k: "agent_kind (agentCfg (reply ex_params)) = Pi"
    by (simp add: ex_params_def ex_reply_def agentCfg_def)
  have p: "parseOutput (getAgentSpec ?env Pi) ''hello'' = Some pr"
    by (simp add: ex_env_def piSpec_def ex_parse_hello pr_def)
  have v: "verboseLevel ex_params = None" by (simp add: ex_params_def)
  from no_output_fallback[OF ex_params_commands(1) enq cd kl]
  obtain res where run: "runCommandReply ?env ex_params = Inr res"
    and b: "\<forall>pr. trim (stdout r) \<noteq> [] \<and>
        parseOutput (getAgentSpec ?env (agent_kind (agentCfg (reply ex_params)))) (trim (stdout r)) = Some pr \<and>
        (\<forall>t\<in>set (texts pr). trim t = []) \<and>
        (verboseLevel ex_params = Some VerboseOn \<longrightarrow>
           (\<forall>trs. toolResults pr = Some trs \<longrightarrow> (\<forall>t\<in>set trs. trim t = []))) \<longrightarrow>
        map p_text (payloads res) =
          [Some (''(command produced no output'' @
                 (case meta pr of
                    None \<Rightarrow> []
                  | Some m \<Rightarrow>
                      (case extra_summary m of
                         None \<Rightarrow> []
                       | Some s \<Rightarrow> if s = [] then [] else ''; '' @ s)) @ '')'')]"
    by blast
  from b[rule_format, of pr] have "map p_text (payloads res) = [Some ''(command produced no output)'']"
    by (simp add: t k p v) (simp add: pr_def)
  then show ?thesis using run ex_params_commands(1) by (simp add: trim_simple)
qed

section \<open>The thinking level in the argv of runCommandReply\<close>

lemma applyThinking_last:
  "(level = None \<or> level = Some Off \<longrightarrow>
      applyThinking k level (pre @ [body], bodyIndexOf (pre @ [body])) = (pre @ [body], length pre)) \<and>
   (level = Some l \<and> l \<noteq> Off \<and> k = Pi \<longrightarrow>
      applyThinking k level (pre @ [body], bodyIndexOf (pre @ [body])) =
        (if \<exists>a\<in>set (pre @ [body]). a = ''--thinking'' \<or> startsWith a ''--thinking=''
         then (pre @ [body], length pre)
         else (pre @ [''--thinking'', think_word l, body], length pre + 2))) \<and>
   (level = Some l \<and> l \<noteq> Off \<and> k \<noteq> Pi \<longrightarrow>
      applyThinking k level (pre @ [body], bodyIndexOf (pre @ [body])) =
        (let cue = (case l of Minimal \<Rightarrow> ''think'' | Low \<Rightarrow> ''think hard''
                    | Medium \<Rightarrow> ''think harder'' | High \<Rightarrow> ''ultrathink'' | Off \<Rightarrow> [])
         in if body = [] then (pre @ [body], length pre)
            else if trim body = [] then (pre @ [cue], length pre)
            else (pre @ [trim body @ '' '' @ cue], length pre)))"
proof (intro conjI impI)
  assume "level = None \<or> level = Some Off"
  then show "applyThinking k level (pre @ [body], bodyIndexOf (pre @ [body])) = (pre @ [body], length pre)"
    by (auto simp: applyThinking_def bodyIndexOf_def)
next
  assume a: "level = Some l \<and> l \<noteq> Off \<and> k = Pi"
  then show "applyThinking k level (pre @ [body], bodyIndexOf (pre @ [body])) =
        (if \<exists>a\<in>set (pre @ [body]). a = ''--thinking'' \<or> startsWith a ''--thinking=''
         then (pre @ [body], length pre)
         else (pre @ [''--thinking'', think_word l, body], length pre + 2))"
    unfolding hasThinkingFlag_iff[symmetric]
    by (cases l) (simp_all add: applyThinking_def bodyIndexOf_def splice_in_def)
next
  assume a: "level = Some l \<and> l \<noteq> Off \<and> k \<noteq> Pi"
  then show "applyThinking k level (pre @ [body], bodyIndexOf (pre @ [body])) =
        (let cue = (case l of Minimal \<Rightarrow> ''think'' | Low \<Rightarrow> ''think hard''
                    | Medium \<Rightarrow> ''think harder'' | High \<Rightarrow> ''ultrathink'' | Off \<Rightarrow> [])
         in if body = [] then (pre @ [body], length pre)
            else if trim body = [] then (pre @ [cue], length pre)
            else (pre @ [trim body @ '' '' @ cue], length pre))"
    by (cases l) (simp_all add: applyThinking_def bodyIndexOf_def appendThinkingCue_def Let_def)
qed

lemma applyThinking_off:
  "level = None \<or> level = Some Off \<Longrightarrow> applyThinking k level (argv, i) = (argv, i)"
  by (auto simp: applyThinking_def)

lemma inject_keeps_body:
  assumes "argv \<noteq> []" and "\<not> flagsAfterBody env ps argv"
  shows "\<exists>pre. injectSessionArgs env ps argv = pre @ [last argv]"
proof (cases "session (reply ps)")
  case None
  then have "injectSessionArgs env ps argv = butlast argv @ [last argv]"
    using assms(1) by (simp add: injectSessionArgs_def)
  then show ?thesis by blast
next
  case (Some s)
  show ?thesis
  proof (cases "sessionArgList env ps s = []")
    case True
    then have "injectSessionArgs env ps argv = butlast argv @ [last argv]"
      using assms(1) Some by (simp add: injectSessionArgs_def)
    then show ?thesis by blast
  next
    case False
    then have b: "sessionArgBeforeBody s \<noteq> Some False" and l: "length argv > 1"
      using assms(2) Some by (auto simp: flagsAfterBody_def)
    have "injectSessionArgs env ps argv = (butlast argv @ sessionArgList env ps s) @ [last argv]"
      using False b l Some take_drop_last[OF assms(1)]
      by (cases "sessionArgBeforeBody s") (auto simp: injectSessionArgs_def Let_def)
    then show ?thesis by blast
  qed
qed

text \<open>
  Claim C7, as amended. A think level of off, or none, leaves argv as it is after the
  session flags. For another level, when the body, the last argument of the templated
  command, is still the last argument after the session flags (there are none, or they
  are inserted before it): with the pi agent the pair \<open>--thinking <level>\<close> is inserted
  before the body unless an argument is \<open>--thinking\<close> or starts with \<open>--thinking=\<close>; with
  any other agent an empty body is left as it is, a body of white space only is replaced
  by the cue word, and any other body by its trimmed text, one space and the cue word
  (think, think hard, think harder, ultrathink).
\<close>

theorem thinking_cue:
  "(thinkLevel ps = None \<or> thinkLevel ps = Some Off \<longrightarrow>
      argvOf env ps cmd =
        (injectSessionArgs env ps (templatedArgv env ps cmd),
         length (injectSessionArgs env ps (templatedArgv env ps cmd)) - 1)) \<and>
   (cmd \<noteq> [] \<and> \<not> flagsAfterBody env ps (templatedArgv env ps cmd) \<longrightarrow>
      (let body = last (templatedArgv env ps cmd)
       in \<exists>pre. injectSessionArgs env ps (templatedArgv env ps cmd) = pre @ [body] \<and>
            (\<forall>l. thinkLevel ps = Some l \<and> l \<noteq> Off \<and> agent_kind (agentCfg (reply ps)) = Pi \<longrightarrow>
               argvOf env ps cmd =
                 (if \<exists>a\<in>set (pre @ [body]). a = ''--thinking'' \<or> startsWith a ''--thinking=''
                  then (pre @ [body], length pre)
                  else (pre @ [''--thinking'', think_word l, body], length pre + 2))) \<and>
            (\<forall>l. thinkLevel ps = Some l \<and> l \<noteq> Off \<and> agent_kind (agentCfg (reply ps)) \<noteq> Pi \<longrightarrow>
               argvOf env ps cmd =
                 (let cue = (case l of Minimal \<Rightarrow> ''think'' | Low \<Rightarrow> ''think hard''
                             | Medium \<Rightarrow> ''think harder'' | High \<Rightarrow> ''ultrathink'' | Off \<Rightarrow> [])
                  in if body = [] then (pre @ [body], length pre)
                     else if trim body = [] then (pre @ [cue], length pre)
                     else (pre @ [trim body @ '' '' @ cue], length pre)))))"
proof (intro conjI impI)
  assume "thinkLevel ps = None \<or> thinkLevel ps = Some Off"
  then show "argvOf env ps cmd =
        (injectSessionArgs env ps (templatedArgv env ps cmd),
         length (injectSessionArgs env ps (templatedArgv env ps cmd)) - 1)"
    by (simp add: argvOf_def Let_def applyThinking_off bodyIndexOf_def)
next
  assume a: "cmd \<noteq> [] \<and> \<not> flagsAfterBody env ps (templatedArgv env ps cmd)"
  define T where "T = templatedArgv env ps cmd"
  have ne: "T \<noteq> []"
    using a by (auto simp: T_def templatedArgv_def Let_def split: list.splits)
  from inject_keeps_body[OF ne] a obtain pre where
    pre: "injectSessionArgs env ps T = pre @ [last T]" by (auto simp: T_def)
  have av: "argvOf env ps cmd =
      applyThinking (agent_kind (agentCfg (reply ps))) (thinkLevel ps)
        (pre @ [last T], bodyIndexOf (pre @ [last T]))"
    by (simp add: argvOf_def Let_def pre[unfolded T_def] T_def)
  have "injectSessionArgs env ps T = pre @ [last T] \<and>
            (\<forall>l. thinkLevel ps = Some l \<and> l \<noteq> Off \<and> agent_kind (agentCfg (reply ps)) = Pi \<longrightarrow>
               argvOf env ps cmd =
                 (if \<exists>a\<in>set (pre @ [last T]). a = ''--thinking'' \<or> startsWith a ''--thinking=''
                  then (pre @ [last T], length pre)
                  else (pre @ [''--thinking'', think_word l, last T], length pre + 2))) \<and>
            (\<forall>l. thinkLevel ps = Some l \<and> l \<noteq> Off \<and> agent_kind (agentCfg (reply ps)) \<noteq> Pi \<longrightarrow>
               argvOf env ps cmd =
                 (let cue = (case l of Minimal \<Rightarrow> ''think'' | Low \<Rightarrow> ''think hard''
                             | Medium \<Rightarrow> ''think harder'' | High \<Rightarrow> ''ultrathink'' | Off \<Rightarrow> [])
                  in if last T = [] then (pre @ [last T], length pre)
                     else if trim (last T) = [] then (pre @ [cue], length pre)
                     else (pre @ [trim (last T) @ '' '' @ cue], length pre)))"
    using pre applyThinking_last[of "thinkLevel ps" "agent_kind (agentCfg (reply ps))" pre "last T"]
    unfolding av by blast
  then show "let body = last (templatedArgv env ps cmd)
       in \<exists>pre. injectSessionArgs env ps (templatedArgv env ps cmd) = pre @ [body] \<and>
            (\<forall>l. thinkLevel ps = Some l \<and> l \<noteq> Off \<and> agent_kind (agentCfg (reply ps)) = Pi \<longrightarrow>
               argvOf env ps cmd =
                 (if \<exists>a\<in>set (pre @ [body]). a = ''--thinking'' \<or> startsWith a ''--thinking=''
                  then (pre @ [body], length pre)
                  else (pre @ [''--thinking'', think_word l, body], length pre + 2))) \<and>
            (\<forall>l. thinkLevel ps = Some l \<and> l \<noteq> Off \<and> agent_kind (agentCfg (reply ps)) \<noteq> Pi \<longrightarrow>
               argvOf env ps cmd =
                 (let cue = (case l of Minimal \<Rightarrow> ''think'' | Low \<Rightarrow> ''think hard''
                             | Medium \<Rightarrow> ''think harder'' | High \<Rightarrow> ''ultrathink'' | Off \<Rightarrow> [])
                  in if body = [] then (pre @ [body], length pre)
                     else if trim body = [] then (pre @ [cue], length pre)
                     else (pre @ [trim body @ '' '' @ cue], length pre)))"
    unfolding T_def[symmetric] Let_def by (intro exI[of _ pre])
qed

lemma ex_template_simps:
  "applyTemplate (ex_env out) ''claude'' c = ''claude''"
  "applyTemplate (ex_env out) ''pi'' c = ''pi''"
  "applyTemplate (ex_env out) ''-p'' c = ''-p''"
  "applyTemplate (ex_env out) ''--session-id'' c = ''--session-id''"
  "applyTemplate (ex_env out) ''--session'' c = ''--session''"
  "applyTemplate (ex_env out) ''{{Body}}'' c = (case Body c of Some b \<Rightarrow> b | None \<Rightarrow> [])"
  "applyTemplate (ex_env out) ''{{SessionId}}'' c = (case SessionId c of Some i \<Rightarrow> i | None \<Rightarrow> [])"
  by (simp_all add: ex_env_def ex_template_def)

lemma ex_think_argv:
  "templatedArgv (ex_env out) ex_think_params [''claude'', ''-p'', ''{{Body}}''] = [''claude'', ''-p'', ''hello'']"
  "templatedArgv (ex_env out) ex_blank_params [''claude'', ''-p'', ''{{Body}}''] = [''claude'', ''-p'', '' '']"
  "templatedArgv (ex_env out) ex_appended_params [''claude'', ''-p'', ''{{Body}}''] = [''claude'', ''-p'', ''hello'']"
  "templatedArgv (ex_env out) ex_pi_think_params [''pi'', ''{{Body}}''] = [''pi'', ''hello'']"
  by (simp_all add: templatedArgv_def ex_template_simps ex_think_params_def ex_blank_params_def
      ex_appended_params_def ex_pi_think_params_def ex_claude_params_def ex_params_def ex_reply_def
      ex_ctx_def)

lemma ex_think_inject:
  "injectSessionArgs (ex_env out) ex_think_params [''claude'', ''-p'', ''hello''] =
     [''claude'', ''-p'', ''--session-id'', ''abc'', ''hello'']"
  "injectSessionArgs (ex_env out) ex_blank_params [''claude'', ''-p'', '' ''] =
     [''claude'', ''-p'', ''--session-id'', ''abc'', '' '']"
  "injectSessionArgs (ex_env out) ex_appended_params [''claude'', ''-p'', ''hello''] =
     [''claude'', ''-p'', ''hello'', ''--session-id'', ''abc'']"
  "injectSessionArgs (ex_env out) ex_pi_think_params [''pi'', ''hello''] =
     [''pi'', ''--session'', ''abc'', ''hello'']"
  by (simp_all add: injectSessionArgs_def sessionArgList_def agentCfg_def ex_template_simps
      ex_think_params_def ex_blank_params_def ex_appended_params_def ex_pi_think_params_def
      ex_claude_params_def ex_params_def ex_reply_def ex_ctx_def)

lemma ex_think_flags:
  "\<not> flagsAfterBody (ex_env out) ex_think_params [''claude'', ''-p'', ''hello'']"
  "\<not> flagsAfterBody (ex_env out) ex_pi_think_params [''pi'', ''hello'']"
  by (simp_all add: flagsAfterBody_def ex_think_params_def ex_pi_think_params_def
      ex_claude_params_def ex_params_def ex_reply_def)

text \<open>A claude session with the level high and a pi session with the level low, the
  session flags before the prompt \<open>hello\<close>.\<close>

theorem thinking_cue_witness:
  "argvOf (ex_env (ex_result ''ok'')) ex_think_params [''claude'', ''-p'', ''{{Body}}''] =
     ([''claude'', ''-p'', ''--session-id'', ''abc'', ''hello ultrathink''], 4) \<and>
   argvOf (ex_env (ex_result ''ok'')) ex_pi_think_params [''pi'', ''{{Body}}''] =
     ([''pi'', ''--session'', ''abc'', ''--thinking'', ''low'', ''hello''], 5)"
proof -
  let ?env = "ex_env (ex_result ''ok'')"
  let ?T = "templatedArgv ?env ex_think_params [''claude'', ''-p'', ''{{Body}}'']"
  let ?U = "templatedArgv ?env ex_pi_think_params [''pi'', ''{{Body}}'']"
  have t: "trim ''hello'' = ''hello''" by (simp add: trim_def is_ws_def)
  have k: "agent_kind (agentCfg (reply ex_think_params)) \<noteq> Pi"
    "thinkLevel ex_think_params = Some High"
    "agent_kind (agentCfg (reply ex_pi_think_params)) = Pi"
    "thinkLevel ex_pi_think_params = Some Low"
    by (simp_all add: agentCfg_def ex_think_params_def ex_pi_think_params_def ex_claude_params_def
        ex_params_def ex_reply_def)
  have c: "[''claude'', ''-p'', ''{{Body}}''] \<noteq> [] \<and> \<not> flagsAfterBody ?env ex_think_params ?T"
    by (simp add: ex_think_argv ex_think_flags)
  note th = thinking_cue[of ex_think_params ?env "[''claude'', ''-p'', ''{{Body}}'']",
      THEN conjunct2, THEN mp, OF c, unfolded Let_def]
  then obtain pre where p0: "injectSessionArgs ?env ex_think_params ?T = pre @ [last ?T]"
    and r0: "\<forall>l. thinkLevel ex_think_params = Some l \<and> l \<noteq> Off \<and>
              agent_kind (agentCfg (reply ex_think_params)) \<noteq> Pi \<longrightarrow>
         argvOf ?env ex_think_params [''claude'', ''-p'', ''{{Body}}''] =
           (if last ?T = []
            then (pre @ [last ?T], length pre)
            else if trim (last ?T) = []
              then (pre @
                    [case l of Off \<Rightarrow> [] | Minimal \<Rightarrow> ''think'' | Low \<Rightarrow> ''think hard''
                     | Medium \<Rightarrow> ''think harder'' | High \<Rightarrow> ''ultrathink''], length pre)
              else (pre @
                    [trim (last ?T) @ '' '' @
                     (case l of Off \<Rightarrow> [] | Minimal \<Rightarrow> ''think'' | Low \<Rightarrow> ''think hard''
                      | Medium \<Rightarrow> ''think harder'' | High \<Rightarrow> ''ultrathink'')], length pre))"
    by blast
  from p0 have "[''claude'', ''-p'', ''--session-id'', ''abc''] @ [''hello''] = pre @ [''hello'']"
    by (simp add: ex_think_argv ex_think_inject)
  then have pre: "pre = [''claude'', ''-p'', ''--session-id'', ''abc'']"
    by (simp only: append_same_eq)
  from r0[rule_format, of High] k(1,2)
  have a: "argvOf ?env ex_think_params [''claude'', ''-p'', ''{{Body}}''] =
     ([''claude'', ''-p'', ''--session-id'', ''abc'', ''hello ultrathink''], 4)"
    by (simp add: pre t ex_think_argv)
  have c2: "[''pi'', ''{{Body}}''] \<noteq> [] \<and> \<not> flagsAfterBody ?env ex_pi_think_params ?U"
    by (simp add: ex_think_argv ex_think_flags)
  note th2 = thinking_cue[of ex_pi_think_params ?env "[''pi'', ''{{Body}}'']",
      THEN conjunct2, THEN mp, OF c2, unfolded Let_def]
  then obtain pre2 where p2: "injectSessionArgs ?env ex_pi_think_params ?U = pre2 @ [last ?U]"
    and r2: "\<forall>l. thinkLevel ex_pi_think_params = Some l \<and> l \<noteq> Off \<and>
              agent_kind (agentCfg (reply ex_pi_think_params)) = Pi \<longrightarrow>
         argvOf ?env ex_pi_think_params [''pi'', ''{{Body}}''] =
           (if \<exists>a\<in>set (pre2 @ [last ?U]). a = ''--thinking'' \<or> startsWith a ''--thinking=''
            then (pre2 @ [last ?U], length pre2)
            else (pre2 @ [''--thinking'', think_word l, last ?U], length pre2 + 2))"
    by blast
  from p2 have "[''pi'', ''--session'', ''abc''] @ [''hello''] = pre2 @ [''hello'']"
    by (simp add: ex_think_argv ex_think_inject)
  then have pre2: "pre2 = [''pi'', ''--session'', ''abc'']"
    by (simp only: append_same_eq)
  from r2[rule_format, of Low] k(3,4)
  have b: "argvOf ?env ex_pi_think_params [''pi'', ''{{Body}}''] =
     ([''pi'', ''--session'', ''abc'', ''--thinking'', ''low'', ''hello''], 5)"
    by (simp add: pre2 startsWith_def ex_think_argv)
  show ?thesis using a b by blast
qed

text \<open>Claim C7 as stated fails: a prompt of one space becomes the cue word alone, not
  the trimmed body, a space and the cue word; and with the session flags appended after
  the prompt the cue word lands on the session id and the prompt stays as it is.\<close>

theorem thinking_cue_counterexample:
  "argvOf (ex_env (ex_result ''ok'')) ex_blank_params [''claude'', ''-p'', ''{{Body}}''] =
     ([''claude'', ''-p'', ''--session-id'', ''abc'', ''think hard''], 4) \<and>
   ''think hard'' \<noteq> trim '' '' @ '' '' @ ''think hard'' \<and>
   argvOf (ex_env (ex_result ''ok'')) ex_appended_params [''claude'', ''-p'', ''{{Body}}''] =
     ([''claude'', ''-p'', ''hello'', ''--session-id'', ''abc ultrathink''], 4)"
proof -
  have k: "agent_kind (agentCfg (reply ex_blank_params)) = Claude"
    "thinkLevel ex_blank_params = Some Low"
    "agent_kind (agentCfg (reply ex_appended_params)) = Claude"
    "thinkLevel ex_appended_params = Some High"
    by (simp_all add: agentCfg_def ex_blank_params_def ex_appended_params_def ex_claude_params_def
        ex_params_def ex_reply_def)
  have t: "trim '' '' = []" "trim ''abc'' = ''abc''" by (simp_all add: trim_def is_ws_def)
  show ?thesis
    by (simp add: argvOf_def Let_def ex_think_argv ex_think_inject k bodyIndexOf_def
        applyThinking_def appendThinkingCue_def t)
qed

section \<open>Returning, and the payloads of the failure paths\<close>















end
